theory Spec2Isabelle
  imports Main
begin

section \<open>Data model\<close>

text \<open>
  A shallow embedding of \<^verbatim>\<open>OAuth_Token_Cleanup_Cron.py\<close>. The script is a single
  linear pass; everything it touches outside its own locals (the three Cassandra tables,
  the clock, the file system, the SMTP relay, the console, the cluster handle) is one
  explicit \<open>world\<close> record that every operation takes and returns.

  A UUID is represented by its canonical text, the value \<^verbatim>\<open>str(uuid)\<close> splices
  into the CQL statements.
\<close>

type_synonym uuid = string

text \<open>The exceptions the script can raise on the data it reads; none of them is caught.\<close>

datatype error =
    UsageError string
  | AttributeError
  | TypeError
  | OverflowError
  | IndexError
  | InvalidRequest

subsection \<open>Python datetimes\<close>

text \<open>
  A \<^verbatim>\<open>datetime\<close> is its wall-clock reading, counted in microseconds from
  0001-01-01T00:00:00, and its \<^verbatim>\<open>tzinfo\<close>: \<open>None\<close> for a naive value, otherwise
  the zone's fixed offset from UTC in microseconds (\<^verbatim>\<open>pytz.utc\<close> is offset 0).
  A \<^verbatim>\<open>timedelta\<close> is a number of microseconds.
\<close>

record datetime =
  wall :: int
  tzinfo :: "int option"

definition MAXORDINAL :: int where
  "MAXORDINAL = 3652059"

definition US_PER_DAY :: int where
  "US_PER_DAY = 86400000000"

definition utc :: "int option" where
  "utc = Some 0"

text \<open>\<^verbatim>\<open>datetime.timedelta(seconds=s)\<close>; \<open>None\<close> for \<open>s\<close> is a TypeError, more than
  999999999 days an OverflowError.\<close>

definition timedelta :: "int option \<Rightarrow> error + int" where
  "timedelta seconds =
     (case seconds of
        None \<Rightarrow> Inl TypeError
      | Some s \<Rightarrow>
          if \<bar>s div 86400\<bar> > 999999999 then Inl OverflowError
          else Inr (s * 1000000))"

text \<open>\<^verbatim>\<open>d + td\<close>: the wall clock moves, the zone stays; a result outside years
  1..9999 is an OverflowError.\<close>

definition dt_add :: "datetime \<Rightarrow> int \<Rightarrow> error + datetime" where
  "dt_add d td =
     (let w = wall d + td
      in if 0 \<le> w \<and> w < MAXORDINAL * US_PER_DAY then Inr (d\<lparr>wall := w\<rparr>)
         else Inl OverflowError)"

text \<open>\<^verbatim>\<open>a > b\<close>: two aware values compare as instants (wall clock minus offset), two
  naive values by wall clock, a mixed pair is a TypeError.\<close>

definition dt_gt :: "datetime \<Rightarrow> datetime \<Rightarrow> error + bool" where
  "dt_gt a b =
     (case (tzinfo a, tzinfo b) of
        (Some oa, Some ob) \<Rightarrow> Inr (wall a - oa > wall b - ob)
      | (None, None) \<Rightarrow> Inr (wall a > wall b)
      | _ \<Rightarrow> Inl TypeError)"

subsection \<open>Tables, console, mail\<close>

text \<open>A row of \<^verbatim>\<open>oauth2_tokens\<close>. \<open>id\<close> is the primary key; the other columns
  are nullable, and the driver hands a null over as \<^verbatim>\<open>None\<close>.\<close>

record token_row =
  id_tok :: uuid
  credential_id :: "uuid option"
  expires_in :: "int option"
  created_at :: "datetime option"

datatype log_line =
    CountBefore int
  | Deleting uuid "uuid option" "int option" datetime datetime
  | CountAfter int
  | Abuse string string string int

record connection =
  contact_points :: "string list"
  ssl_options :: "(string \<times> string) list"
  auth_username :: string
  auth_password :: string
  port :: int
  connected_keyspace :: string

text \<open>A message handed to \<^verbatim>\<open>server.sendmail\<close>. The Subject header is
  \<^verbatim>\<open>f"{dbhost} {subject} executed at {exec_time}"\<close>; its three parts are kept apart,
  \<open>exec_time\<close> as the datetime that \<^verbatim>\<open>strftime\<close> renders.\<close>

record email_msg =
  smtp_relay :: string
  envelope_from :: string
  envelope_to :: "string list"
  subject_host :: string
  subject_text :: string
  subject_time :: datetime
  header_from :: string
  header_to :: string
  body :: string

record world =
  oauth2_tokens :: "token_row list"
  oauth2_credentials :: "(uuid \<times> uuid option) list"
  consumers :: "(uuid \<times> string option) list"
  clock :: int
  hostname :: string
  path_exists :: "string \<Rightarrow> bool"
  connections :: "connection list"
  shutdowns :: nat
  stdout :: "log_line list"
  outbox :: "email_msg list"

text \<open>The parsed command line (\<^verbatim>\<open>args\<close>).\<close>

record args =
  cassandrahost :: string
  keyspace :: string
  username :: string
  password :: string
  email :: "string option"
  sender :: "string option"
  smtpserver :: "string option"
  ssl :: bool
  ca :: "string option"

section \<open>Operations\<close>

subsection \<open>Strings\<close>

definition digit_char :: "nat \<Rightarrow> char" where
  "digit_char d = (''0123456789'' ! d)"

fun str_nat :: "nat \<Rightarrow> string" where
  "str_nat n = (if n < 10 then [digit_char n] else str_nat (n div 10) @ [digit_char (n mod 10)])"

definition str_int :: "int \<Rightarrow> string" where
  "str_int i = (if i < 0 then ''-'' @ str_nat (nat (- i)) else str_nat (nat i))"

text \<open>\<^verbatim>\<open>str(x)\<close> of a nullable text value.\<close>

definition str_opt :: "string option \<Rightarrow> string" where
  "str_opt x = (case x of None \<Rightarrow> ''None'' | Some s \<Rightarrow> s)"

text \<open>Python truthiness of an optional string: \<^verbatim>\<open>None\<close> and \<^verbatim>\<open>""\<close> are false.\<close>

definition truthy :: "string option \<Rightarrow> bool" where
  "truthy x = (case x of None \<Rightarrow> False | Some s \<Rightarrow> s \<noteq> [])"

text \<open>\<^verbatim>\<open>s.replace(c, '')\<close> for a single character.\<close>

definition replace_char :: "char \<Rightarrow> string \<Rightarrow> string" where
  "replace_char c s = filter (\<lambda>x. x \<noteq> c) s"

fun join :: "string \<Rightarrow> string list \<Rightarrow> string" where
  "join sep [] = []"
| "join sep [x] = x"
| "join sep (x # y # ys) = x @ sep @ join sep (y # ys)"

subsection \<open>Database statements\<close>

text \<open>
  The statements the script sends with \<^verbatim>\<open>session.execute\<close>, each as its effect on
  the tables. Only the failures that depend on the data are modelled; a statement that is
  well formed is taken to succeed.
\<close>

text \<open>\<^verbatim>\<open>SELECT COUNT(*) FROM oauth2_tokens\<close>, \<^verbatim>\<open>.one()[0]\<close>\<close>

definition select_count :: "world \<Rightarrow> int" where
  "select_count w = int (length (oauth2_tokens w))"

text \<open>\<^verbatim>\<open>DELETE from oauth2_tokens where id=<i>\<close>\<close>

definition delete_token :: "uuid \<Rightarrow> world \<Rightarrow> world" where
  "delete_token i w = w\<lparr>oauth2_tokens := filter (\<lambda>r. id_tok r \<noteq> i) (oauth2_tokens w)\<rparr>"

text \<open>
  \<^verbatim>\<open>SELECT consumer_id FROM oauth2_credentials where id = <text>\<close>, where the text is
  \<^verbatim>\<open>str(key).replace('(','').replace(')','')\<close>. A null key is spliced as the word
  \<^verbatim>\<open>None\<close>, which is no CQL term: the statement is rejected.
\<close>

definition select_consumer_id :: "uuid option \<Rightarrow> world \<Rightarrow> error + uuid option list" where
  "select_consumer_id key w =
     (case key of
        None \<Rightarrow> Inl InvalidRequest
      | Some k \<Rightarrow>
          Inr (map snd (filter (\<lambda>row. fst row = replace_char CHR '')'' (replace_char CHR ''('' k))
                          (oauth2_credentials w))))"

text \<open>
  \<^verbatim>\<open>SELECT username FROM consumers where id = <offending_consumer_id>\<close>, where the text is
  \<^verbatim>\<open>str(consumer_id)\<close>; a null \<open>consumer_id\<close> is again the word \<^verbatim>\<open>None\<close>.
\<close>

definition select_username :: "uuid option \<Rightarrow> world \<Rightarrow> error + string option list" where
  "select_username cid w =
     (case cid of
        None \<Rightarrow> Inl InvalidRequest
      | Some c \<Rightarrow> Inr (map snd (filter (\<lambda>row. fst row = c) (consumers w))))"

definition print :: "log_line \<Rightarrow> world \<Rightarrow> world" where
  "print l w = w\<lparr>stdout := stdout w @ [l]\<rparr>"

subsection \<open>The scan (lines 79 to 101)\<close>

text \<open>Lines 84 to 90: the creation time made aware, and the expiration time.\<close>

definition expiration_time :: "token_row \<Rightarrow> error + (datetime \<times> datetime)" where
  "expiration_time token_row =
     (case created_at token_row of
        None \<Rightarrow> Inl AttributeError
      | Some c \<Rightarrow>
          let created = (if tzinfo c = None then c\<lparr>tzinfo := utc\<rparr> else c)
          in (case timedelta (expires_in token_row) of
                Inl e \<Rightarrow> Inl e
              | Inr td \<Rightarrow>
                  (case dt_add created td of
                     Inl e \<Rightarrow> Inl e
                   | Inr expiration \<Rightarrow> Inr (created, expiration))))"

text \<open>Lines 94 to 97 on \<^verbatim>\<open>consumer_tokens\<close>, a dict in insertion order.\<close>

fun count_token :: "uuid option \<Rightarrow> (uuid option \<times> int) list \<Rightarrow> (uuid option \<times> int) list" where
  "count_token k [] = [(k, 1)]"
| "count_token k ((k', v) # kvs) =
     (if k = k' then (k', v + 1) # kvs else (k', v) # count_token k kvs)"

text \<open>The \<^verbatim>\<open>for token_row in rows\<close> loop over the rows the SELECT returned. An
  exception leaves it with the world as it is at that moment.\<close>

fun scan ::
  "datetime \<Rightarrow> token_row list \<Rightarrow> int \<Rightarrow> (uuid option \<times> int) list \<Rightarrow> world \<Rightarrow>
     (error \<times> world) + ((int \<times> (uuid option \<times> int) list) \<times> world)" where
  "scan current_time [] rowsdeleted consumer_tokens w = Inr ((rowsdeleted, consumer_tokens), w)"
| "scan current_time (token_row # rows) rowsdeleted consumer_tokens w =
     (case expiration_time token_row of
        Inl e \<Rightarrow> Inl (e, w)
      | Inr (created, expiration) \<Rightarrow>
          (case dt_gt current_time expiration of
             Inl e \<Rightarrow> Inl (e, w)
           | Inr expired \<Rightarrow>
               if expired then
                 scan current_time rows (rowsdeleted + 1)
                   (count_token (credential_id token_row) consumer_tokens)
                   (delete_token (id_tok token_row)
                      (print (Deleting (id_tok token_row) (credential_id token_row)
                                (expires_in token_row) created expiration) w))
               else scan current_time rows rowsdeleted consumer_tokens w))"

subsection \<open>The abuse report (lines 107 to 118)\<close>

definition abuse_header :: string where
  \<open>abuse_header =
     ''<hr/><span class="black">Consumer Token Creation Abuse (If any): </span><hr/>''\<close>

definition abuse_entry :: "string \<Rightarrow> string \<Rightarrow> string \<Rightarrow> int \<Rightarrow> string" where
  \<open>abuse_entry keyspace' offending_consumer_id offending_consumer_username v =
     ''<br/><span class="black">Cassandra Keyspace: </span> '' @ keyspace' @
     ''<br/><span class="black">Consumer ID: </span> '' @ offending_consumer_id @
     ''<br/><span class="black">Consumer Name: </span> '' @ offending_consumer_username @
     ''<br/><span class="black">Tokens Created: </span> '' @ str_int v @ ''<hr/>''\<close>

text \<open>The \<^verbatim>\<open>for key, value in consumer_tokens.items()\<close> loop; \<^verbatim>\<open>[0]\<close> on an
  empty result is an IndexError.\<close>

fun abuse_report ::
  "string \<Rightarrow> (uuid option \<times> int) list \<Rightarrow> string \<Rightarrow> world \<Rightarrow> (error \<times> world) + (string \<times> world)" where
  "abuse_report keyspace' [] consumer_abuse_table w = Inr (consumer_abuse_table, w)"
| "abuse_report keyspace' ((key, v) # items) consumer_abuse_table w =
     (if v \<ge> 100 then
        (case select_consumer_id key w of
           Inl e \<Rightarrow> Inl (e, w)
         | Inr [] \<Rightarrow> Inl (IndexError, w)
         | Inr (consumer_id # _) \<Rightarrow>
             let offending_consumer_id = str_opt consumer_id
             in (case select_username consumer_id w of
                   Inl e \<Rightarrow> Inl (e, w)
                 | Inr [] \<Rightarrow> Inl (IndexError, w)
                 | Inr (name # _) \<Rightarrow>
                     let offending_consumer_username = str_opt name
                     in abuse_report keyspace' items
                          (consumer_abuse_table @
                             abuse_entry keyspace' offending_consumer_id offending_consumer_username v)
                          (print (Abuse keyspace' offending_consumer_id offending_consumer_username v) w)))
      else abuse_report keyspace' items consumer_abuse_table w)"

subsection \<open>The notification (lines 54 to 64)\<close>

text \<open>Under the guard both options hold a value, so \<open>the\<close> reads it. The relay
  accepts the message.\<close>

definition sendEmailAlert :: "args \<Rightarrow> string \<Rightarrow> string \<Rightarrow> string \<Rightarrow> datetime \<Rightarrow> world \<Rightarrow> world" where
  "sendEmailAlert a BODY dbhost subject exec_time w =
     (if truthy (email a) \<and> truthy (smtpserver a) then
        let sender' = (if truthy (sender a) then the (sender a)
                       else dbhost @ '' OAuth Token Cleanup Script'');
            recipients = [the (email a)]
        in w\<lparr>outbox := outbox w @
               [\<lparr>smtp_relay = the (smtpserver a),
                 envelope_from = sender',
                 envelope_to = recipients,
                 subject_host = dbhost,
                 subject_text = subject,
                 subject_time = exec_time,
                 header_from = sender',
                 header_to = join '', '' recipients,
                 body = BODY\<rparr>]\<rparr>
      else w)"

subsection \<open>The run (lines 66 to 121)\<close>

definition report_style :: string where
  \<open>report_style =
     ''<html> <head> <style> body{ font-family: FrutigerLTStd-Light, Arial, sans-serif;} '' @
     ''h1, h2, h3, h4 { color:#e87722; font-weight: bold; text-rendering: optimizeLegibility; '' @
     ''margin: 0 0 24px 0; } .black{ color:#333333; }.light{ color:#8c8c8c; font-size: 10px; } '' @
     ''</style> </head> <body> <br/> ''\<close>

definition report_body :: "string \<Rightarrow> string \<Rightarrow> int \<Rightarrow> string \<Rightarrow> string" where
  \<open>report_body casshost keyspace' rowsdeleted consumer_abuse_table =
     report_style @ ''<h1><span class="black">Server:</span> '' @ casshost @
     ''<br/><span class="black">Cassandra Keyspace: </span> '' @ keyspace' @
     ''<br/><span class="black">OAuth_Tokens Rows Deleted: </span> '' @ str_int rowsdeleted @
     ''</h1> '' @ consumer_abuse_table @ ''</body> </html>''\<close>

text \<open>\<^verbatim>\<open>Cluster(...)\<close> and \<^verbatim>\<open>cluster.connect(keyspace)\<close>\<close>

definition connect :: "connection \<Rightarrow> world \<Rightarrow> world" where
  "connect c w = w\<lparr>connections := connections w @ [c]\<rparr>"

text \<open>\<^verbatim>\<open>cluster.shutdown()\<close>\<close>

definition shutdown :: "world \<Rightarrow> world" where
  "shutdown w = w\<lparr>shutdowns := shutdowns w + 1\<rparr>"

text \<open>The function returns nothing; the model hands back the final values of its locals
  next to the world, so that they can be spoken about.\<close>

record locals =
  count_before :: int
  rowsdeleted_final :: int
  consumer_tokens_final :: "(uuid option \<times> int) list"
  count_after :: int
  consumer_abuse_table_final :: string

definition deleteExpiredIDs ::
  "args \<Rightarrow> (string \<times> string) list \<Rightarrow> string \<Rightarrow> string \<Rightarrow> string \<Rightarrow> string \<Rightarrow> string \<Rightarrow> world \<Rightarrow>
     (error \<times> world) + (locals \<times> world)" where
  "deleteExpiredIDs a ssl_opts casshost host keyspace' user password' w0 =
     (let w1 = connect \<lparr>contact_points = [host], ssl_options = ssl_opts,
                        auth_username = user, auth_password = password',
                        port = 9042, connected_keyspace = keyspace'\<rparr> w0;
          current_time = \<lparr>wall = clock w1, tzinfo = utc\<rparr>;
          exec_time = current_time;
          cb = select_count w1;
          w2 = print (CountBefore cb) w1;
          rows = oauth2_tokens w2
      in (case scan current_time rows 0 [] w2 of
            Inl (e, w) \<Rightarrow> Inl (e, w)
          | Inr ((rowsdeleted, consumer_tokens), w3) \<Rightarrow>
              let ca' = select_count w3;
                  w4 = print (CountAfter ca') w3
              in (case abuse_report keyspace' consumer_tokens abuse_header w4 of
                    Inl (e, w) \<Rightarrow> Inl (e, w)
                  | Inr (consumer_abuse_table, w5) \<Rightarrow>
                      let w6 = sendEmailAlert a
                                 (report_body casshost keyspace' rowsdeleted consumer_abuse_table)
                                 casshost ''OAuth Token Cleanup'' exec_time w5;
                          w7 = shutdown w6
                      in Inr (\<lparr>count_before = cb, rowsdeleted_final = rowsdeleted,
                               consumer_tokens_final = consumer_tokens, count_after = ca',
                               consumer_abuse_table_final = consumer_abuse_table\<rparr>, w7))))"

subsection \<open>The script (lines 16, 39 to 51 and 124)\<close>

text \<open>\<^verbatim>\<open>parser.error\<close> prints the usage message and exits the process.\<close>

definition main :: "args \<Rightarrow> world \<Rightarrow> (error \<times> world) + (locals \<times> world)" where
  "main a w =
     (let casshost = hostname w
      in if ssl a then
           (case ca a of
              None \<Rightarrow> Inl (UsageError ''--ssl requires --ca to set a truststore'', w)
            | Some path \<Rightarrow>
                if \<not> path_exists w path
                then Inl (UsageError ''--ca file not found or reachable'', w)
                else deleteExpiredIDs a
                       [(''ca_certs'', path), (''ssl_version'', ''PROTOCOL_TLSv1''),
                        (''cert_reqs'', ''CERT_REQUIRED'')]
                       casshost (cassandrahost a) (keyspace a) (username a) (password a) w)
         else deleteExpiredIDs a [] casshost
                (cassandrahost a) (keyspace a) (username a) (password a) w)"

section \<open>Notions used in the statements\<close>

text \<open>The world a call leaves behind, whether it returned or raised.\<close>

definition final_world :: "(error \<times> world) + ('a \<times> world) \<Rightarrow> world" where
  "final_world res = (case res of Inl (e, w) \<Rightarrow> w | Inr (x, w) \<Rightarrow> w)"

text \<open>The instant a datetime denotes, in microseconds, with a naive value read as UTC.\<close>

definition utc_instant :: "datetime \<Rightarrow> int" where
  "utc_instant d = (case tzinfo d of None \<Rightarrow> wall d | Some off \<Rightarrow> wall d - off)"

text \<open>The outcome of the test on line 92 for a row: it was evaluated and came out true.\<close>

definition expired :: "datetime \<Rightarrow> token_row \<Rightarrow> bool" where
  "expired now r =
     (case expiration_time r of
        Inl e \<Rightarrow> False
      | Inr (created, expiration) \<Rightarrow> dt_gt now expiration = Inr True)"

text \<open>Lines 84 to 90 raise nothing on the row.\<close>

definition readable :: "token_row \<Rightarrow> bool" where
  "readable r = (case expiration_time r of Inl e \<Rightarrow> False | Inr x \<Rightarrow> True)"

text \<open>The rows the loop gets through: those before the first row that raises.\<close>

definition scanned :: "token_row list \<Rightarrow> token_row list" where
  "scanned rows = takeWhile readable rows"

text \<open>The owning consumer of a credential and that consumer's row, as the specification
  words the lookup: the consumer id of the credential's row, then the username of that
  consumer's row. \<open>map_of\<close> reads the first row with the key; the key is the credential's
  text with the parentheses removed, as the code splices it (the text of a UUID has none).\<close>

definition resolve ::
  "(uuid \<times> uuid option) list \<Rightarrow> (uuid \<times> string option) list \<Rightarrow> uuid option \<Rightarrow> (uuid \<times> string option) option" where
  "resolve credentials consumers' key =
     (case key of
        None \<Rightarrow> None
      | Some k \<Rightarrow>
          (case map_of credentials (replace_char CHR '')'' (replace_char CHR ''('' k)) of
             Some (Some c) \<Rightarrow>
               (case map_of consumers' c of
                  Some name \<Rightarrow> Some (c, name)
                | None \<Rightarrow> None)
           | _ \<Rightarrow> None))"

text \<open>What the report holds for one credential: one entry when its tally reaches the
  threshold of 100, none below.\<close>

definition report_item ::
  "(uuid \<times> uuid option) list \<Rightarrow> (uuid \<times> string option) list \<Rightarrow> uuid option \<Rightarrow> int \<Rightarrow>
     (uuid option \<times> uuid \<times> string option \<times> int) list" where
  "report_item credentials consumers' key v =
     (if v \<ge> 100
      then (case resolve credentials consumers' key of
              Some (c, name) \<Rightarrow> [(key, c, name, v)]
            | None \<Rightarrow> [])
      else [])"

text \<open>The entries of the abuse report for a tally, in the order of the tally.\<close>

definition reported ::
  "(uuid \<times> uuid option) list \<Rightarrow> (uuid \<times> string option) list \<Rightarrow> (uuid option \<times> int) list \<Rightarrow>
     (uuid option \<times> uuid \<times> string option \<times> int) list" where
  "reported credentials consumers' items =
     concat (map (\<lambda>(key, v). report_item credentials consumers' key v) items)"

text \<open>An entry as it is appended to the HTML table, and as it is printed.\<close>

definition html_entry :: "string \<Rightarrow> uuid option \<times> uuid \<times> string option \<times> int \<Rightarrow> string" where
  "html_entry keyspace' e = (case e of (key, c, name, v) \<Rightarrow> abuse_entry keyspace' c (str_opt name) v)"

definition console_entry :: "string \<Rightarrow> uuid option \<times> uuid \<times> string option \<times> int \<Rightarrow> log_line" where
  "console_entry keyspace' e = (case e of (key, c, name, v) \<Rightarrow> Abuse keyspace' c (str_opt name) v)"

text \<open>\<^verbatim>\<open>current_time\<close>, the clock read once, aware, in UTC.\<close>

definition current :: "world \<Rightarrow> datetime" where
  "current w = \<lparr>wall = clock w, tzinfo = utc\<rparr>"

text \<open>The world when the loop starts: connected, the first count printed.\<close>

definition session_start ::
  "(string \<times> string) list \<Rightarrow> string \<Rightarrow> string \<Rightarrow> string \<Rightarrow> string \<Rightarrow> world \<Rightarrow> world" where
  "session_start ssl_opts host keyspace' user password' w =
     print (CountBefore (int (length (oauth2_tokens w))))
       (connect \<lparr>contact_points = [host], ssl_options = ssl_opts,
                 auth_username = user, auth_password = password',
                 port = 9042, connected_keyspace = keyspace'\<rparr> w)"

text \<open>The number of rows of a credential in the table.\<close>

definition tokens_of :: "uuid option \<Rightarrow> world \<Rightarrow> nat" where
  "tokens_of k w = length (filter (\<lambda>r. credential_id r = k) (oauth2_tokens w))"

text \<open>The row's credential has a consumer, and the consumer a row.\<close>

definition resolvable :: "world \<Rightarrow> token_row \<Rightarrow> bool" where
  "resolvable w r =
     (case resolve (oauth2_credentials w) (consumers w) (credential_id r) of
        None \<Rightarrow> False
      | Some x \<Rightarrow> True)"

section \<open>Example inputs\<close>

text \<open>
  A small database and command line on which the statements below are evaluated. The clock
  reads 63900000000000000 microseconds; every token has a one-hour or two-hour lifetime.
\<close>

definition cred_X :: uuid where
  "cred_X = ''c0000000-0000-4000-8000-00000000000a''"

definition cred_Y :: uuid where
  "cred_Y = ''c0000000-0000-4000-8000-00000000000b''"

definition cred_Z :: uuid where
  "cred_Z = ''c0000000-0000-4000-8000-00000000000c''"

definition cred_V :: uuid where
  "cred_V = ''c0000000-0000-4000-8000-00000000000d''"

definition consumer_1 :: uuid where
  "consumer_1 = ''d0000000-0000-4000-8000-000000000001''"

definition consumer_2 :: uuid where
  "consumer_2 = ''d0000000-0000-4000-8000-000000000002''"

text \<open>Created 3601 seconds before now, naive.\<close>

definition tok_expired :: token_row where
  "tok_expired = \<lparr>id_tok = ''a0000000-0000-4000-8000-000000000001'',
                   credential_id = Some cred_X, expires_in = Some 3600,
                   created_at = Some \<lparr>wall = 63899996399000000, tzinfo = None\<rparr>\<rparr>"

text \<open>Created exactly 3600 seconds before now, naive.\<close>

definition tok_tie :: token_row where
  "tok_tie = \<lparr>id_tok = ''a0000000-0000-4000-8000-000000000002'',
               credential_id = Some cred_Y, expires_in = Some 3600,
               created_at = Some \<lparr>wall = 63899996400000000, tzinfo = None\<rparr>\<rparr>"

text \<open>Created 3599 seconds before now, aware, UTC.\<close>

definition tok_fresh :: token_row where
  "tok_fresh = \<lparr>id_tok = ''a0000000-0000-4000-8000-000000000003'',
                 credential_id = Some cred_X, expires_in = Some 3600,
                 created_at = Some \<lparr>wall = 63899996401000000, tzinfo = Some 0\<rparr>\<rparr>"

text \<open>Created 3601 seconds before now, aware, two hours east of UTC.\<close>

definition tok_offset :: token_row where
  "tok_offset = \<lparr>id_tok = ''a0000000-0000-4000-8000-000000000004'',
                  credential_id = Some cred_X, expires_in = Some 3600,
                  created_at = Some \<lparr>wall = 63900003599000000, tzinfo = Some 7200000000\<rparr>\<rparr>"

text \<open>Created some 115 days before now, naive.\<close>

definition tok_old :: token_row where
  "tok_old = \<lparr>id_tok = ''a0000000-0000-4000-8000-000000000005'',
               credential_id = Some cred_Z, expires_in = Some 7200,
               created_at = Some \<lparr>wall = 63890000000000000, tzinfo = None\<rparr>\<rparr>"

text \<open>A row whose \<open>created_at\<close> column is null.\<close>

definition tok_null :: token_row where
  "tok_null = \<lparr>id_tok = ''a0000000-0000-4000-8000-000000000006'',
                credential_id = Some cred_Y, expires_in = Some 3600,
                created_at = None\<rparr>"

definition demo_args :: args where
  "demo_args = \<lparr>cassandrahost = ''localhost'', keyspace = ''kong_dev'',
                 username = ''dba'', password = ''secret'',
                 email = Some ''ops@example.com'', sender = None,
                 smtpserver = Some ''mail.relay.com'', ssl = False, ca = None\<rparr>"

definition demo_world :: world where
  "demo_world = \<lparr>oauth2_tokens = [tok_expired, tok_tie, tok_fresh, tok_offset, tok_old],
                  oauth2_credentials =
                    [(cred_X, Some consumer_1), (cred_Y, Some consumer_2), (cred_Z, Some consumer_1)],
                  consumers = [(consumer_1, Some ''alice''), (consumer_2, Some ''bob'')],
                  clock = 63900000000000000,
                  hostname = ''db1'',
                  path_exists = (\<lambda>p. p = ''/etc/ssl/truststore.pem''),
                  connections = [], shutdowns = 0, stdout = [], outbox = []\<rparr>"

definition demo_connection :: connection where
  "demo_connection = \<lparr>contact_points = [''localhost''], ssl_options = [],
                       auth_username = ''dba'', auth_password = ''secret'',
                       port = 9042, connected_keyspace = ''kong_dev''\<rparr>"

definition demo_deleting :: "log_line list" where
  "demo_deleting =
     [Deleting (id_tok tok_expired) (Some cred_X) (Some 3600)
        \<lparr>wall = 63899996399000000, tzinfo = Some 0\<rparr>
        \<lparr>wall = 63899999999000000, tzinfo = Some 0\<rparr>,
      Deleting (id_tok tok_offset) (Some cred_X) (Some 3600)
        \<lparr>wall = 63900003599000000, tzinfo = Some 7200000000\<rparr>
        \<lparr>wall = 63900007199000000, tzinfo = Some 7200000000\<rparr>,
      Deleting (id_tok tok_old) (Some cred_Z) (Some 7200)
        \<lparr>wall = 63890000000000000, tzinfo = Some 0\<rparr>
        \<lparr>wall = 63890007200000000, tzinfo = Some 0\<rparr>]"

text \<open>The world after the scan of \<open>demo_world\<close>, and after the whole run.\<close>

definition demo_scanned :: world where
  "demo_scanned = demo_world\<lparr>oauth2_tokens := [tok_tie, tok_fresh], stdout := demo_deleting\<rparr>"

definition demo_locals :: locals where
  "demo_locals = \<lparr>count_before = 5, rowsdeleted_final = 3,
                   consumer_tokens_final = [(Some cred_X, 2), (Some cred_Z, 1)],
                   count_after = 2, consumer_abuse_table_final = abuse_header\<rparr>"

definition demo_mail :: email_msg where
  "demo_mail = \<lparr>smtp_relay = ''mail.relay.com'',
                 envelope_from = ''db1 OAuth Token Cleanup Script'',
                 envelope_to = [''ops@example.com''],
                 subject_host = ''db1'',
                 subject_text = ''OAuth Token Cleanup'',
                 subject_time = \<lparr>wall = 63900000000000000, tzinfo = Some 0\<rparr>,
                 header_from = ''db1 OAuth Token Cleanup Script'',
                 header_to = ''ops@example.com'',
                 body = report_body ''db1'' ''kong_dev'' 3 abuse_header\<rparr>"

definition demo_after :: world where
  "demo_after = demo_world\<lparr>oauth2_tokens := [tok_tie, tok_fresh],
                   connections := [demo_connection],
                   shutdowns := 1,
                   stdout := CountBefore 5 # demo_deleting @ [CountAfter 2],
                   outbox := [demo_mail]\<rparr>"

text \<open>A tally as the scan could leave it, for the report loop.\<close>

definition demo_items :: "(uuid option \<times> int) list" where
  "demo_items = [(Some cred_X, 150), (Some cred_Y, 40), (Some cred_Z, 100), (Some cred_V, 99)]"

text \<open>A table in which the second row cannot be read.\<close>

definition broken_world :: world where
  "broken_world = demo_world\<lparr>oauth2_tokens := [tok_expired, tok_null, tok_old]\<rparr>"

definition broken_after :: world where
  "broken_after = demo_world\<lparr>oauth2_tokens := [tok_null, tok_old],
                     connections := [demo_connection],
                     stdout := [CountBefore 3,
                                Deleting (id_tok tok_expired) (Some cred_X) (Some 3600)
                                  \<lparr>wall = 63899996399000000, tzinfo = Some 0\<rparr>
                                  \<lparr>wall = 63899999999000000, tzinfo = Some 0\<rparr>]\<rparr>"

section \<open>Properties of the operations\<close>

lemma expiration_time_aware:
  "expiration_time r = Inr (c, e) \<Longrightarrow> tzinfo e \<noteq> None"
  by (auto simp: expiration_time_def dt_add_def Let_def utc_def split: option.splits sum.splits if_splits)

lemma dt_gt_aware:
  "tzinfo a = Some oa \<Longrightarrow> tzinfo b \<noteq> None \<Longrightarrow> \<exists>v. dt_gt a b = Inr v"
  by (auto simp: dt_gt_def split: option.splits)

lemma delete_token_fields [simp]:
  "oauth2_tokens (delete_token i w) = filter (\<lambda>r. id_tok r \<noteq> i) (oauth2_tokens w)"
  "oauth2_credentials (delete_token i w) = oauth2_credentials w"
  "consumers (delete_token i w) = consumers w"
  "clock (delete_token i w) = clock w"
  "hostname (delete_token i w) = hostname w"
  "path_exists (delete_token i w) = path_exists w"
  "connections (delete_token i w) = connections w"
  "shutdowns (delete_token i w) = shutdowns w"
  "stdout (delete_token i w) = stdout w"
  "outbox (delete_token i w) = outbox w"
  by (simp_all add: delete_token_def)

lemma print_fields [simp]:
  "oauth2_tokens (print l w) = oauth2_tokens w"
  "oauth2_credentials (print l w) = oauth2_credentials w"
  "consumers (print l w) = consumers w"
  "clock (print l w) = clock w"
  "hostname (print l w) = hostname w"
  "path_exists (print l w) = path_exists w"
  "connections (print l w) = connections w"
  "shutdowns (print l w) = shutdowns w"
  "stdout (print l w) = stdout w @ [l]"
  "outbox (print l w) = outbox w"
  by (simp_all add: print_def)

lemma scan_tokens:
  "tzinfo now = Some off \<Longrightarrow>
   oauth2_tokens (final_world (scan now rows n ct w)) =
     filter (\<lambda>r. id_tok r \<notin> id_tok ` set (filter (expired now) (scanned rows))) (oauth2_tokens w)"
proof (induction rows arbitrary: n ct w)
  case Nil
  then show ?case by (simp add: final_world_def scanned_def)
next
  case (Cons r rows)
  show ?case
  proof (cases "expiration_time r")
    case (Inl e)
    then show ?thesis by (simp add: final_world_def scanned_def readable_def)
  next
    case (Inr p)
    obtain c e where p: "p = (c, e)" by (cases p)
    from Inr p have aw: "tzinfo e \<noteq> None" using expiration_time_aware by blast
    then obtain v where v: "dt_gt now e = Inr v" using dt_gt_aware Cons.prems by blast
    have rd: "readable r" using Inr by (simp add: readable_def)
    show ?thesis
    proof (cases v)
      case True
      then have ex: "expired now r" using Inr p v by (simp add: expired_def)
      show ?thesis using Inr p v True ex rd Cons.IH[OF Cons.prems]
        by (auto simp: scanned_def filter_id_conv intro!: filter_cong)
    next
      case False
      then have ex: "\<not> expired now r" using Inr p v by (simp add: expired_def)
      show ?thesis using Inr p v False ex rd Cons.IH[OF Cons.prems]
        by (simp add: scanned_def)
    qed
  qed
qed

lemma scan_frame:
  "\<exists>toks out. final_world (scan now rows n ct w) = w\<lparr>oauth2_tokens := toks, stdout := out\<rparr>"
proof (induction rows arbitrary: n ct w)
  case Nil
  have "w = w\<lparr>oauth2_tokens := oauth2_tokens w, stdout := stdout w\<rparr>" by simp
  then show ?case unfolding final_world_def scan.simps sum.case prod.case by blast
next
  case (Cons r rows)
  have self: "\<exists>toks out. w = w\<lparr>oauth2_tokens := toks, stdout := out\<rparr>"
  proof -
    have "w = w\<lparr>oauth2_tokens := oauth2_tokens w, stdout := stdout w\<rparr>" by simp
    then show ?thesis by blast
  qed
  show ?case
  proof (cases "expiration_time r")
    case (Inl e)
    then show ?thesis using self by (simp add: final_world_def)
  next
    case (Inr p)
    obtain c e where p: "p = (c, e)" by (cases p)
    show ?thesis
    proof (cases "dt_gt now e")
      case (Inl err)
      then show ?thesis using Inr p self by (simp add: final_world_def)
    next
      case v: (Inr v)
      show ?thesis
      proof (cases v)
        case True
        let ?w1 = "delete_token (id_tok r) (print (Deleting (id_tok r) (credential_id r) (expires_in r) c e) w)"
        from Cons.IH[of "n + 1" "count_token (credential_id r) ct" ?w1]
        obtain toks out where
          "final_world (scan now rows (n + 1) (count_token (credential_id r) ct) ?w1) =
             ?w1\<lparr>oauth2_tokens := toks, stdout := out\<rparr>" by blast
        then have "final_world (scan now (r # rows) n ct w) = w\<lparr>oauth2_tokens := toks, stdout := out\<rparr>"
          using Inr p v True by (simp add: delete_token_def print_def)
        then show ?thesis by blast
      next
        case False
        then show ?thesis using Inr p v Cons.IH[of n ct w] by simp
      qed
    qed
  qed
qed

lemma scan_complete:
  "scan now rows n ct w = Inr ((n', ct'), w') \<Longrightarrow>
   scanned rows = rows \<and>
   n' = n + int (length (filter (expired now) rows)) \<and>
   ct' = fold count_token (map credential_id (filter (expired now) rows)) ct"
proof (induction rows arbitrary: n ct w)
  case Nil
  then show ?case by (simp add: scanned_def)
next
  case (Cons r rows)
  from Cons.prems obtain c e v where
    et: "expiration_time r = Inr (c, e)" and v: "dt_gt now e = Inr v"
    by (auto split: sum.splits prod.splits)
  have rd: "readable r" using et by (simp add: readable_def)
  show ?case
  proof (cases v)
    case True
    then have ex: "expired now r" using et v by (simp add: expired_def)
    from Cons.prems et v True have
      "scan now rows (n + 1) (count_token (credential_id r) ct)
         (delete_token (id_tok r) (print (Deleting (id_tok r) (credential_id r) (expires_in r) c e) w))
       = Inr ((n', ct'), w')" by simp
    from Cons.IH[OF this] show ?thesis using ex rd by (simp add: scanned_def)
  next
    case False
    then have ex: "\<not> expired now r" using et v by (simp add: expired_def)
    from Cons.prems et v False have "scan now rows n ct w = Inr ((n', ct'), w')" by simp
    from Cons.IH[OF this] show ?thesis using ex rd by (simp add: scanned_def)
  qed
qed

lemma count_token_keys: "map fst (count_token k ct) = (if k \<in> fst ` set ct then map fst ct else map fst ct @ [k])"
  by (induction ct) (force+)

lemma count_token_distinct: "distinct (map fst ct) \<Longrightarrow> distinct (map fst (count_token k ct))"
  by (simp add: count_token_keys)

lemma count_token_lookup:
  "map_of (count_token k ct) k' =
     (if k' = k then Some (case map_of ct k of None \<Rightarrow> 1 | Some v \<Rightarrow> v + 1) else map_of ct k')"
  by (induction ct) auto

lemma count_token_sum: "sum_list (map snd (count_token k ct)) = sum_list (map snd ct) + 1"
  by (induction ct) auto

lemma fold_count_token_distinct:
  "distinct (map fst ct) \<Longrightarrow> distinct (map fst (fold count_token ks ct))"
  by (induction ks arbitrary: ct) (simp_all add: count_token_distinct)

lemma fold_count_token_sum:
  "sum_list (map snd (fold count_token ks ct)) = sum_list (map snd ct) + int (length ks)"
  by (induction ks arbitrary: ct) (simp_all add: count_token_sum)

lemma fold_count_token_lookup:
  "map_of (fold count_token ks ct) k =
     (case map_of ct k of
        None \<Rightarrow> if count_list ks k = 0 then None else Some (int (count_list ks k))
      | Some v \<Rightarrow> Some (v + int (count_list ks k)))"
  by (induction ks arbitrary: ct) (auto simp: count_token_lookup split: option.splits)

lemma first_match: "(case map snd (filter (\<lambda>row. fst row = k) xs) of [] \<Rightarrow> None | x # _ \<Rightarrow> Some x) = map_of xs k"
  by (induction xs) auto

lemma select_consumer_id_Inr:
  "select_consumer_id key w = Inr (x # xs) \<Longrightarrow>
   \<exists>k. key = Some k \<and> map_of (oauth2_credentials w) (replace_char CHR '')'' (replace_char CHR ''('' k)) = Some x"
  using first_match[of "replace_char CHR '')'' (replace_char CHR ''('' (the key))" "oauth2_credentials w"]
  by (auto simp: select_consumer_id_def split: option.splits)

lemma select_username_Inr:
  "select_username cid w = Inr (x # xs) \<Longrightarrow> \<exists>c. cid = Some c \<and> map_of (consumers w) c = Some x"
  using first_match[of "the cid" "consumers w"]
  by (auto simp: select_username_def split: option.splits)

lemma abuse_report_complete:
  "abuse_report ks items tbl w = Inr (tbl', w') \<Longrightarrow>
     (\<forall>(key, v) \<in> set items. v \<ge> 100 \<longrightarrow> resolve (oauth2_credentials w) (consumers w) key \<noteq> None) \<and>
     tbl' = tbl @ concat (map (html_entry ks) (reported (oauth2_credentials w) (consumers w) items)) \<and>
     w' = w\<lparr>stdout := stdout w @
                map (console_entry ks) (reported (oauth2_credentials w) (consumers w) items)\<rparr>"
proof (induction items arbitrary: tbl w)
  case Nil
  then show ?case by (simp add: reported_def)
next
  case (Cons item items)
  obtain key v where item: "item = (key, v)" by (cases item)
  show ?case
  proof (cases "v \<ge> 100")
    case False
    with Cons.prems item have "abuse_report ks items tbl w = Inr (tbl', w')" by simp
    from Cons.IH[OF this] show ?thesis using False item by (simp add: reported_def report_item_def)
  next
    case True
    from Cons.prems item True obtain cid cids where
      s1: "select_consumer_id key w = Inr (cid # cids)"
      by (auto split: sum.splits list.splits)
    from Cons.prems item True s1 obtain name names where
      s2: "select_username cid w = Inr (name # names)"
      by (auto split: sum.splits list.splits simp: Let_def)
    from select_consumer_id_Inr[OF s1] obtain k where
      k: "key = Some k"
         "map_of (oauth2_credentials w) (replace_char CHR '')'' (replace_char CHR ''('' k)) = Some cid"
      by blast
    from select_username_Inr[OF s2] obtain c where
      c: "cid = Some c" "map_of (consumers w) c = Some name" by blast
    have res: "resolve (oauth2_credentials w) (consumers w) key = Some (c, name)"
      using k c by (simp add: resolve_def)
    let ?w1 = "print (Abuse ks c (str_opt name) v) w"
    from Cons.prems item True s1 s2 c have
      rec: "abuse_report ks items (tbl @ abuse_entry ks c (str_opt name) v) ?w1 = Inr (tbl', w')"
      by (simp add: Let_def str_opt_def)
    from Cons.IH[OF rec] show ?thesis using item True res
      by (simp add: reported_def report_item_def html_entry_def console_entry_def print_def)
  qed
qed

lemma abuse_report_frame:
  "\<exists>out. final_world (abuse_report ks items tbl w) = w\<lparr>stdout := out\<rparr>"
proof (induction items arbitrary: tbl w)
  case Nil
  have "w = w\<lparr>stdout := stdout w\<rparr>" by simp
  then show ?case unfolding final_world_def abuse_report.simps sum.case prod.case by blast
next
  case (Cons item items)
  obtain key v where item: "item = (key, v)" by (cases item)
  have self: "\<exists>out. w = w\<lparr>stdout := out\<rparr>"
  proof -
    have "w = w\<lparr>stdout := stdout w\<rparr>" by simp
    then show ?thesis by blast
  qed
  have step: "\<exists>out. final_world (abuse_report ks items t (print l w)) = w\<lparr>stdout := out\<rparr>" for t l
  proof -
    from Cons.IH[of t "print l w"] obtain out where
      "final_world (abuse_report ks items t (print l w)) = (print l w)\<lparr>stdout := out\<rparr>" by blast
    then have "final_world (abuse_report ks items t (print l w)) = w\<lparr>stdout := out\<rparr>"
      by (simp add: print_def)
    then show ?thesis by blast
  qed
  show ?case
  proof (cases "v \<ge> 100")
    case False
    then show ?thesis using Cons.IH[of tbl w] item by simp
  next
    case True
    show ?thesis
    proof (cases "select_consumer_id key w")
      case (Inl e)
      then show ?thesis using True item self by (simp add: final_world_def)
    next
      case s1: (Inr cids)
      show ?thesis
      proof (cases cids)
        case Nil
        then show ?thesis using True item self s1 by (simp add: final_world_def)
      next
        case c1: (Cons cid cids')
        show ?thesis
        proof (cases "select_username cid w")
          case (Inl e)
          then show ?thesis using True item self s1 c1 by (simp add: final_world_def)
        next
          case s2: (Inr names)
          show ?thesis
          proof (cases names)
            case Nil
            then show ?thesis using True item self s1 c1 s2 by (simp add: final_world_def)
          next
            case c2: (Cons name names')
            show ?thesis using True item s1 c1 s2 c2 step by (simp add: Let_def)
          qed
        qed
      qed
    qed
  qed
qed

lemma abuse_report_errors:
  "abuse_report ks items tbl w = Inl (e, w') \<Longrightarrow> e = IndexError \<or> e = InvalidRequest"
proof (induction items arbitrary: tbl w)
  case Nil
  then show ?case by simp
next
  case (Cons item items)
  obtain key v where item: "item = (key, v)" by (cases item)
  show ?case using Cons item
    by (auto simp: Let_def select_consumer_id_def select_username_def
             split: sum.splits list.splits if_splits option.splits)
qed

lemma scan_errors:
  "scan now rows n ct w = Inl (e, w') \<Longrightarrow> e = AttributeError \<or> e = TypeError \<or> e = OverflowError"
proof (induction rows arbitrary: n ct w)
  case Nil
  then show ?case by simp
next
  case (Cons r rows)
  show ?case using Cons
    by (auto simp: expiration_time_def timedelta_def dt_add_def dt_gt_def Let_def
             split: sum.splits if_splits option.splits prod.splits)
qed

lemma connect_fields [simp]:
  "oauth2_tokens (connect c w) = oauth2_tokens w"
  "oauth2_credentials (connect c w) = oauth2_credentials w"
  "consumers (connect c w) = consumers w"
  "clock (connect c w) = clock w"
  "hostname (connect c w) = hostname w"
  "path_exists (connect c w) = path_exists w"
  "connections (connect c w) = connections w @ [c]"
  "shutdowns (connect c w) = shutdowns w"
  "stdout (connect c w) = stdout w"
  "outbox (connect c w) = outbox w"
  by (simp_all add: connect_def)

lemma shutdown_fields [simp]:
  "oauth2_tokens (shutdown w) = oauth2_tokens w"
  "oauth2_credentials (shutdown w) = oauth2_credentials w"
  "consumers (shutdown w) = consumers w"
  "clock (shutdown w) = clock w"
  "hostname (shutdown w) = hostname w"
  "path_exists (shutdown w) = path_exists w"
  "connections (shutdown w) = connections w"
  "shutdowns (shutdown w) = shutdowns w + 1"
  "stdout (shutdown w) = stdout w"
  "outbox (shutdown w) = outbox w"
  by (simp_all add: shutdown_def)

lemma sendEmailAlert_fields [simp]:
  "oauth2_tokens (sendEmailAlert a B h s t w) = oauth2_tokens w"
  "oauth2_credentials (sendEmailAlert a B h s t w) = oauth2_credentials w"
  "consumers (sendEmailAlert a B h s t w) = consumers w"
  "clock (sendEmailAlert a B h s t w) = clock w"
  "hostname (sendEmailAlert a B h s t w) = hostname w"
  "path_exists (sendEmailAlert a B h s t w) = path_exists w"
  "connections (sendEmailAlert a B h s t w) = connections w"
  "shutdowns (sendEmailAlert a B h s t w) = shutdowns w"
  "stdout (sendEmailAlert a B h s t w) = stdout w"
  by (simp_all add: sendEmailAlert_def Let_def)

lemma session_start_fields [simp]:
  "oauth2_tokens (session_start so host ks u p w) = oauth2_tokens w"
  "oauth2_credentials (session_start so host ks u p w) = oauth2_credentials w"
  "consumers (session_start so host ks u p w) = consumers w"
  "shutdowns (session_start so host ks u p w) = shutdowns w"
  "outbox (session_start so host ks u p w) = outbox w"
  "length (connections (session_start so host ks u p w)) = length (connections w) + 1"
  by (simp_all add: session_start_def)

lemma deleteExpiredIDs_unfold:
  "deleteExpiredIDs a so h host ks u p w =
     (case scan (current w) (oauth2_tokens w) 0 [] (session_start so host ks u p w) of
        Inl (e, w1) \<Rightarrow> Inl (e, w1)
      | Inr ((n, ct), w3) \<Rightarrow>
          (case abuse_report ks ct abuse_header
                  (print (CountAfter (int (length (oauth2_tokens w3)))) w3) of
             Inl (e, w1) \<Rightarrow> Inl (e, w1)
           | Inr (tbl, w5) \<Rightarrow>
               Inr (\<lparr>count_before = int (length (oauth2_tokens w)), rowsdeleted_final = n,
                     consumer_tokens_final = ct,
                     count_after = int (length (oauth2_tokens w3)),
                     consumer_abuse_table_final = tbl\<rparr>,
                    shutdown (sendEmailAlert a (report_body h ks n tbl) h
                                ''OAuth Token Cleanup'' (current w) w5))))"
  by (simp add: deleteExpiredIDs_def Let_def session_start_def current_def select_count_def
           split: sum.splits prod.splits)

lemma current_aware: "tzinfo (current w) = Some 0"
  by (simp add: current_def utc_def)

lemma scan_world:
  assumes "final_world (scan (current w) rows n ct w0) = w1"
  shows "oauth2_tokens w1 =
           filter (\<lambda>r. id_tok r \<notin> id_tok ` set (filter (expired (current w)) (scanned rows)))
             (oauth2_tokens w0)"
    and "oauth2_credentials w1 = oauth2_credentials w0"
    and "consumers w1 = consumers w0"
    and "connections w1 = connections w0"
    and "shutdowns w1 = shutdowns w0"
    and "outbox w1 = outbox w0"
proof -
  show "oauth2_tokens w1 =
           filter (\<lambda>r. id_tok r \<notin> id_tok ` set (filter (expired (current w)) (scanned rows)))
             (oauth2_tokens w0)"
    using scan_tokens[OF current_aware, of w rows n ct w0] assms by simp
  from scan_frame[of "current w" rows n ct w0] obtain toks out where
    "final_world (scan (current w) rows n ct w0) = w0\<lparr>oauth2_tokens := toks, stdout := out\<rparr>"
    by blast
  with assms have w1: "w1 = w0\<lparr>oauth2_tokens := toks, stdout := out\<rparr>" by simp
  show "oauth2_credentials w1 = oauth2_credentials w0" by (simp add: w1)
  show "consumers w1 = consumers w0" by (simp add: w1)
  show "connections w1 = connections w0" by (simp add: w1)
  show "shutdowns w1 = shutdowns w0" by (simp add: w1)
  show "outbox w1 = outbox w0" by (simp add: w1)
qed

lemma abuse_report_world:
  assumes "final_world (abuse_report ks items tbl w0) = w1"
  shows "oauth2_tokens w1 = oauth2_tokens w0"
    and "oauth2_credentials w1 = oauth2_credentials w0"
    and "consumers w1 = consumers w0"
    and "connections w1 = connections w0"
    and "shutdowns w1 = shutdowns w0"
    and "outbox w1 = outbox w0"
proof -
  from abuse_report_frame[of ks items tbl w0] obtain out where
    "final_world (abuse_report ks items tbl w0) = w0\<lparr>stdout := out\<rparr>" by blast
  with assms have w1: "w1 = w0\<lparr>stdout := out\<rparr>" by simp
  show "oauth2_tokens w1 = oauth2_tokens w0" by (simp add: w1)
  show "oauth2_credentials w1 = oauth2_credentials w0" by (simp add: w1)
  show "consumers w1 = consumers w0" by (simp add: w1)
  show "connections w1 = connections w0" by (simp add: w1)
  show "shutdowns w1 = shutdowns w0" by (simp add: w1)
  show "outbox w1 = outbox w0" by (simp add: w1)
qed

lemma final_world_simps [simp]:
  "final_world (Inl (e, w)) = w"
  "final_world (Inr (x, w)) = w"
  by (simp_all add: final_world_def)

lemma deleteExpiredIDs_tokens:
  "oauth2_tokens (final_world (deleteExpiredIDs a so h host ks u p w)) =
     filter (\<lambda>r. id_tok r \<notin> id_tok ` set (filter (expired (current w)) (scanned (oauth2_tokens w))))
       (oauth2_tokens w)"
proof (cases "scan (current w) (oauth2_tokens w) 0 [] (session_start so host ks u p w)")
  case (Inl ew)
  obtain e w1 where ew: "ew = (e, w1)" by (cases ew)
  have "final_world (scan (current w) (oauth2_tokens w) 0 [] (session_start so host ks u p w)) = w1"
    using Inl ew by simp
  from scan_world(1)[OF this] show ?thesis
    using Inl ew by (simp add: deleteExpiredIDs_unfold)
next
  case (Inr xw)
  obtain n ct w3 where xw: "xw = ((n, ct), w3)" by (cases xw) auto
  have "final_world (scan (current w) (oauth2_tokens w) 0 [] (session_start so host ks u p w)) = w3"
    using Inr xw by simp
  from scan_world(1)[OF this] have t3: "oauth2_tokens w3 =
     filter (\<lambda>r. id_tok r \<notin> id_tok ` set (filter (expired (current w)) (scanned (oauth2_tokens w))))
       (oauth2_tokens w)" by simp
  let ?w4 = "print (CountAfter (int (length (oauth2_tokens w3)))) w3"
  show ?thesis
  proof (cases "abuse_report ks ct abuse_header ?w4")
    case (Inl ew)
    obtain e w5 where ew: "ew = (e, w5)" by (cases ew)
    have "final_world (abuse_report ks ct abuse_header ?w4) = w5" using Inl ew by simp
    from abuse_report_world(1)[OF this] have "oauth2_tokens w5 = oauth2_tokens w3" by simp
    then show ?thesis using Inr xw Inl ew t3 by (simp add: deleteExpiredIDs_unfold)
  next
    case i2: (Inr tw)
    obtain tbl w5 where tw: "tw = (tbl, w5)" by (cases tw)
    have "final_world (abuse_report ks ct abuse_header ?w4) = w5" using i2 tw by simp
    from abuse_report_world(1)[OF this] have "oauth2_tokens w5 = oauth2_tokens w3" by simp
    then show ?thesis using Inr xw i2 tw t3 by (simp add: deleteExpiredIDs_unfold)
  qed
qed

lemma deleteExpiredIDs_complete:
  assumes "deleteExpiredIDs a so h host ks u p w = Inr (l, w')"
  obtains w3 w5 where
    "scan (current w) (oauth2_tokens w) 0 [] (session_start so host ks u p w)
       = Inr ((rowsdeleted_final l, consumer_tokens_final l), w3)"
    "abuse_report ks (consumer_tokens_final l) abuse_header
       (print (CountAfter (int (length (oauth2_tokens w3)))) w3)
       = Inr (consumer_abuse_table_final l, w5)"
    "count_before l = int (length (oauth2_tokens w))"
    "count_after l = int (length (oauth2_tokens w3))"
    "w' = shutdown (sendEmailAlert a
             (report_body h ks (rowsdeleted_final l) (consumer_abuse_table_final l)) h
             ''OAuth Token Cleanup'' (current w) w5)"
  using assms unfolding deleteExpiredIDs_unfold
  by (auto split: sum.splits prod.splits)

lemma readable_expired:
  assumes "readable r"
  shows "\<exists>c s. created_at r = Some c \<and> expires_in r = Some s \<and>
           (expired (current w) r \<longleftrightarrow> clock w > utc_instant c + s * 1000000)"
  using assms
  by (auto simp: readable_def expired_def expiration_time_def timedelta_def dt_add_def dt_gt_def
                 current_def utc_def utc_instant_def Let_def
           split: option.splits sum.splits if_splits)

lemma scanned_subset: "set (scanned rows) \<subseteq> set rows"
  by (auto simp: scanned_def dest: set_takeWhileD)

lemma scanned_readable: "r \<in> set (scanned rows) \<Longrightarrow> readable r"
  by (auto simp: scanned_def dest: set_takeWhileD)

lemma deleted_ids:
  assumes "distinct (map id_tok rows)" and "set xs \<subseteq> set rows" and "r \<in> set rows"
  shows "id_tok r \<in> id_tok ` set xs \<longleftrightarrow> r \<in> set xs"
proof
  assume "id_tok r \<in> id_tok ` set xs"
  then obtain x where x: "x \<in> set xs" "id_tok x = id_tok r" by auto
  have "inj_on id_tok (set rows)" using assms(1) by (simp add: distinct_map)
  with x assms(2,3) have "x = r" by (auto dest: inj_onD)
  with x show "r \<in> set xs" by simp
qed auto

lemma complete_scans_all:
  assumes "deleteExpiredIDs a so h host ks u p w = Inr (l, w')"
  shows "scanned (oauth2_tokens w) = oauth2_tokens w"
proof -
  from assms obtain w3 where
    "scan (current w) (oauth2_tokens w) 0 [] (session_start so host ks u p w)
       = Inr ((rowsdeleted_final l, consumer_tokens_final l), w3)"
    by (rule deleteExpiredIDs_complete)
  from scan_complete[OF this] show ?thesis by simp
qed

lemma retained_rows:
  assumes d: "distinct (map id_tok rows)"
  shows "filter (\<lambda>r. id_tok r \<notin> id_tok ` set (filter P rows)) rows = filter (\<lambda>r. \<not> P r) rows"
proof (rule filter_cong[OF refl])
  fix r assume r: "r \<in> set rows"
  have "id_tok r \<in> id_tok ` set (filter P rows) \<longleftrightarrow> r \<in> set (filter P rows)"
    by (rule deleted_ids[OF d _ r]) auto
  then show "(id_tok r \<notin> id_tok ` set (filter P rows)) = (\<not> P r)" using r by simp
qed

lemma complete_run_facts:
  assumes run: "deleteExpiredIDs a so h host ks u p w = Inr (l, w')"
  shows "rowsdeleted_final l = int (length (filter (expired (current w)) (oauth2_tokens w)))"
    and "consumer_tokens_final l =
           fold count_token (map credential_id (filter (expired (current w)) (oauth2_tokens w))) []"
    and "count_before l = int (length (oauth2_tokens w))"
    and "count_after l = int (length (oauth2_tokens w'))"
    and "oauth2_tokens w' =
           filter (\<lambda>r. id_tok r \<notin> id_tok ` set (filter (expired (current w)) (oauth2_tokens w)))
             (oauth2_tokens w)"
proof -
  from run obtain w3 w5 where
    sc: "scan (current w) (oauth2_tokens w) 0 [] (session_start so host ks u p w)
           = Inr ((rowsdeleted_final l, consumer_tokens_final l), w3)" and
    ab: "abuse_report ks (consumer_tokens_final l) abuse_header
           (print (CountAfter (int (length (oauth2_tokens w3)))) w3)
           = Inr (consumer_abuse_table_final l, w5)" and
    cb: "count_before l = int (length (oauth2_tokens w))" and
    ca: "count_after l = int (length (oauth2_tokens w3))" and
    w': "w' = shutdown (sendEmailAlert a
             (report_body h ks (rowsdeleted_final l) (consumer_abuse_table_final l)) h
             ''OAuth Token Cleanup'' (current w) w5)"
    by (rule deleteExpiredIDs_complete)
  from scan_complete[OF sc] show
    "rowsdeleted_final l = int (length (filter (expired (current w)) (oauth2_tokens w)))"
    "consumer_tokens_final l =
           fold count_token (map credential_id (filter (expired (current w)) (oauth2_tokens w))) []"
    by simp_all
  show "count_before l = int (length (oauth2_tokens w))" by (rule cb)
  have "final_world (abuse_report ks (consumer_tokens_final l) abuse_header
           (print (CountAfter (int (length (oauth2_tokens w3)))) w3)) = w5"
    using ab by simp
  from abuse_report_world(1)[OF this] have t5: "oauth2_tokens w5 = oauth2_tokens w3" by simp
  then have t': "oauth2_tokens w' = oauth2_tokens w3" by (simp add: w')
  show "count_after l = int (length (oauth2_tokens w'))" using ca t' by simp
  have "oauth2_tokens (final_world (deleteExpiredIDs a so h host ks u p w)) = oauth2_tokens w'"
    using run by simp
  then show "oauth2_tokens w' =
           filter (\<lambda>r. id_tok r \<notin> id_tok ` set (filter (expired (current w)) (oauth2_tokens w)))
             (oauth2_tokens w)"
    using deleteExpiredIDs_tokens[of a so h host ks u p w] complete_scans_all[OF run] by simp
qed

lemma count_list_credentials:
  "count_list (map credential_id rows) k = length (filter (\<lambda>r. credential_id r = k) rows)"
  by (induction rows) auto

lemma report_item_key: "e \<in> set (report_item cr cs key v) \<Longrightarrow> fst e = key"
proof (cases "100 \<le> v")
  case True
  assume "e \<in> set (report_item cr cs key v)"
  then show ?thesis using True by (cases "resolve cr cs key") (auto simp: report_item_def)
next
  case False
  assume "e \<in> set (report_item cr cs key v)"
  then show ?thesis using False by (simp add: report_item_def)
qed

lemma reported_absent:
  "k \<notin> fst ` set items \<Longrightarrow> filter (\<lambda>e. fst e = k) (reported cr cs items) = []"
proof (induction items)
  case Nil
  then show ?case by (simp add: reported_def)
next
  case (Cons item items)
  obtain key v where item: "item = (key, v)" by (cases item)
  from Cons.prems item have ne: "key \<noteq> k" and rest: "k \<notin> fst ` set items" by auto
  have "filter (\<lambda>e. fst e = k) (report_item cr cs key v) = []"
    using ne by (auto simp: filter_empty_conv dest: report_item_key)
  then show ?case using Cons.IH[OF rest] item by (simp add: reported_def)
qed

lemma reported_of_key:
  "distinct (map fst items) \<Longrightarrow>
   filter (\<lambda>e. fst e = k) (reported cr cs items) =
     (case map_of items k of None \<Rightarrow> [] | Some v \<Rightarrow> report_item cr cs k v)"
proof (induction items)
  case Nil
  then show ?case by (simp add: reported_def)
next
  case (Cons item items)
  obtain key v where item: "item = (key, v)" by (cases item)
  from Cons.prems item have fresh: "key \<notin> fst ` set items" and d: "distinct (map fst items)"
    by auto
  show ?case
  proof (cases "key = k")
    case True
    have "filter (\<lambda>e. fst e = k) (report_item cr cs key v) = report_item cr cs key v"
      using True by (auto simp: filter_id_conv dest: report_item_key)
    moreover have "filter (\<lambda>e. fst e = k) (reported cr cs items) = []"
      using fresh True by (simp add: reported_absent)
    ultimately show ?thesis using item True by (simp add: reported_def)
  next
    case False
    have "filter (\<lambda>e. fst e = k) (report_item cr cs key v) = []"
      using False by (auto simp: filter_empty_conv dest: report_item_key)
    then show ?thesis using Cons.IH[OF d] item False by (simp add: reported_def)
  qed
qed

lemma sendEmailAlert_outbox:
  "outbox (sendEmailAlert a B h s t w) =
     outbox w @
       (if truthy (email a) \<and> truthy (smtpserver a)
        then [\<lparr>smtp_relay = the (smtpserver a),
               envelope_from = (if truthy (sender a) then the (sender a)
                                else h @ '' OAuth Token Cleanup Script''),
               envelope_to = [the (email a)],
               subject_host = h, subject_text = s, subject_time = t,
               header_from = (if truthy (sender a) then the (sender a)
                              else h @ '' OAuth Token Cleanup Script''),
               header_to = the (email a),
               body = B\<rparr>]
        else [])"
  by (simp add: sendEmailAlert_def Let_def)

lemma sendEmailAlert_skip:
  "\<not> (truthy (email a) \<and> truthy (smtpserver a)) \<Longrightarrow> sendEmailAlert a B h s t w = w"
  by (auto simp: sendEmailAlert_def)

lemma deleteExpiredIDs_outbox:
  "outbox (final_world (deleteExpiredIDs a so h host ks u p w)) =
     (case deleteExpiredIDs a so h host ks u p w of
        Inl x \<Rightarrow> outbox w
      | Inr (l, w') \<Rightarrow>
          outbox (sendEmailAlert a
                    (report_body h ks (rowsdeleted_final l) (consumer_abuse_table_final l)) h
                    ''OAuth Token Cleanup'' (current w) w))"
  and deleteExpiredIDs_shutdowns:
  "shutdowns (final_world (deleteExpiredIDs a so h host ks u p w)) =
     (case deleteExpiredIDs a so h host ks u p w of
        Inl x \<Rightarrow> shutdowns w
      | Inr y \<Rightarrow> shutdowns w + 1)"
  and deleteExpiredIDs_connections:
  "connections (final_world (deleteExpiredIDs a so h host ks u p w)) =
     connections w @ [\<lparr>contact_points = [host], ssl_options = so,
                 auth_username = u, auth_password = p,
                 port = 9042, connected_keyspace = ks\<rparr>]"
proof -
  let ?w2 = "session_start so host ks u p w"
  let ?sc = "scan (current w) (oauth2_tokens w) 0 [] ?w2"
  have w2: "outbox ?w2 = outbox w" "shutdowns ?w2 = shutdowns w"
       "connections ?w2 = connections w @ [\<lparr>contact_points = [host], ssl_options = so,
                 auth_username = u, auth_password = p,
                 port = 9042, connected_keyspace = ks\<rparr>]"
    by (simp_all add: session_start_def)
  have "outbox (final_world (deleteExpiredIDs a so h host ks u p w)) =
     (case deleteExpiredIDs a so h host ks u p w of
        Inl x \<Rightarrow> outbox w
      | Inr (l, w') \<Rightarrow>
          outbox (sendEmailAlert a
                    (report_body h ks (rowsdeleted_final l) (consumer_abuse_table_final l)) h
                    ''OAuth Token Cleanup'' (current w) w)) \<and>
    shutdowns (final_world (deleteExpiredIDs a so h host ks u p w)) =
     (case deleteExpiredIDs a so h host ks u p w of
        Inl x \<Rightarrow> shutdowns w
      | Inr y \<Rightarrow> shutdowns w + 1) \<and>
    connections (final_world (deleteExpiredIDs a so h host ks u p w)) =
     connections w @ [\<lparr>contact_points = [host], ssl_options = so,
                 auth_username = u, auth_password = p,
                 port = 9042, connected_keyspace = ks\<rparr>]"
  proof (cases ?sc)
    case (Inl ew)
    obtain e w1 where ew: "ew = (e, w1)" by (cases ew)
    have "final_world ?sc = w1" using Inl ew by simp
    note f = scan_world[OF this]
    show ?thesis using Inl ew f w2 by (simp add: deleteExpiredIDs_unfold)
  next
    case (Inr xw)
    obtain n ct w3 where xw: "xw = ((n, ct), w3)" by (cases xw) auto
    have "final_world ?sc = w3" using Inr xw by simp
    note f3 = scan_world[OF this]
    let ?w4 = "print (CountAfter (int (length (oauth2_tokens w3)))) w3"
    show ?thesis
    proof (cases "abuse_report ks ct abuse_header ?w4")
      case (Inl ew)
      obtain e w5 where ew: "ew = (e, w5)" by (cases ew)
      have "final_world (abuse_report ks ct abuse_header ?w4) = w5" using Inl ew by simp
      note f5 = abuse_report_world[OF this]
      show ?thesis using Inr xw Inl ew f3 f5 w2 by (simp add: deleteExpiredIDs_unfold)
    next
      case i2: (Inr tw)
      obtain tbl w5 where tw: "tw = (tbl, w5)" by (cases tw)
      have "final_world (abuse_report ks ct abuse_header ?w4) = w5" using i2 tw by simp
      note f5 = abuse_report_world[OF this]
      show ?thesis using Inr xw i2 tw f3 f5 w2
        by (simp add: deleteExpiredIDs_unfold sendEmailAlert_outbox)
    qed
  qed
  then show
    "outbox (final_world (deleteExpiredIDs a so h host ks u p w)) =
     (case deleteExpiredIDs a so h host ks u p w of
        Inl x \<Rightarrow> outbox w
      | Inr (l, w') \<Rightarrow>
          outbox (sendEmailAlert a
                    (report_body h ks (rowsdeleted_final l) (consumer_abuse_table_final l)) h
                    ''OAuth Token Cleanup'' (current w) w))"
    "shutdowns (final_world (deleteExpiredIDs a so h host ks u p w)) =
     (case deleteExpiredIDs a so h host ks u p w of
        Inl x \<Rightarrow> shutdowns w
      | Inr y \<Rightarrow> shutdowns w + 1)"
    "connections (final_world (deleteExpiredIDs a so h host ks u p w)) =
     connections w @ [\<lparr>contact_points = [host], ssl_options = so,
                 auth_username = u, auth_password = p,
                 port = 9042, connected_keyspace = ks\<rparr>]"
    by blast+
qed

lemma deleteExpiredIDs_errors:
  assumes "deleteExpiredIDs a so h host ks u p w = Inl (e, w')"
  shows "e = AttributeError \<or> e = TypeError \<or> e = OverflowError \<or> e = IndexError \<or> e = InvalidRequest"
proof (cases "scan (current w) (oauth2_tokens w) 0 [] (session_start so host ks u p w)")
  case (Inl ew)
  obtain e1 w1 where ew: "ew = (e1, w1)" by (cases ew)
  from assms Inl ew have "e1 = e" by (simp add: deleteExpiredIDs_unfold)
  with scan_errors[of "current w" "oauth2_tokens w" 0 "[]" "session_start so host ks u p w" e1 w1] Inl ew
  show ?thesis by auto
next
  case (Inr xw)
  obtain n ct w3 where xw: "xw = ((n, ct), w3)" by (cases xw) auto
  let ?w4 = "print (CountAfter (int (length (oauth2_tokens w3)))) w3"
  from assms Inr xw have "abuse_report ks ct abuse_header ?w4 = Inl (e, w')"
    by (simp add: deleteExpiredIDs_unfold split: sum.splits prod.splits)
  from abuse_report_errors[OF this] show ?thesis by blast
qed

lemma main_unfold:
  "main a w =
     (if ssl a \<and> (ca a = None \<or> (\<exists>p. ca a = Some p \<and> \<not> path_exists w p))
      then Inl (UsageError (if ca a = None then ''--ssl requires --ca to set a truststore''
                            else ''--ca file not found or reachable''), w)
      else deleteExpiredIDs a
             (if ssl a then [(''ca_certs'', the (ca a)), (''ssl_version'', ''PROTOCOL_TLSv1''),
                             (''cert_reqs'', ''CERT_REQUIRED'')] else [])
             (hostname w) (cassandrahost a) (keyspace a) (username a) (password a) w)"
  by (auto simp: main_def Let_def split: option.splits)

lemma scan_returns:
  "list_all readable rows \<Longrightarrow> tzinfo now = Some off \<Longrightarrow>
   \<exists>n ct w'. scan now rows n0 ct0 w = Inr ((n, ct), w')"
proof (induction rows arbitrary: n0 ct0 w)
  case Nil
  then show ?case by simp
next
  case (Cons r rows)
  from Cons.prems(1) have rd: "readable r" and rest: "list_all readable rows" by simp_all
  from rd obtain c e where et: "expiration_time r = Inr (c, e)"
    by (auto simp: readable_def split: sum.splits)
  from expiration_time_aware[OF et] dt_gt_aware[OF Cons.prems(2)]
  obtain v where v: "dt_gt now e = Inr v" by blast
  show ?case
  proof (cases v)
    case True
    then show ?thesis using et v Cons.IH[OF rest Cons.prems(2)] by simp
  next
    case False
    then show ?thesis using et v Cons.IH[OF rest Cons.prems(2)] by simp
  qed
qed

lemma first_match_Some:
  "map_of xs k = Some x \<Longrightarrow> \<exists>rest. map snd (filter (\<lambda>row. fst row = k) xs) = x # rest"
  using first_match[of k xs] by (cases "map snd (filter (\<lambda>row. fst row = k) xs)") simp_all

lemma abuse_report_returns:
  "\<forall>(key, v) \<in> set items. v \<ge> 100 \<longrightarrow> resolve (oauth2_credentials w) (consumers w) key \<noteq> None \<Longrightarrow>
   \<exists>tbl' w'. abuse_report ks items tbl w = Inr (tbl', w')"
proof (induction items arbitrary: tbl w)
  case Nil
  then show ?case by simp
next
  case (Cons item items)
  obtain key v where item: "item = (key, v)" by (cases item)
  from Cons.prems have rest:
    "\<forall>(key, v) \<in> set items. v \<ge> 100 \<longrightarrow> resolve (oauth2_credentials w) (consumers w) key \<noteq> None"
    by simp
  show ?case
  proof (cases "v \<ge> 100")
    case False
    then show ?thesis using item Cons.IH[OF rest] by simp
  next
    case True
    with Cons.prems item obtain c name where
      r: "resolve (oauth2_credentials w) (consumers w) key = Some (c, name)" by auto
    then obtain k where k: "key = Some k"
      and m1: "map_of (oauth2_credentials w) (replace_char CHR '')'' (replace_char CHR ''('' k)) = Some (Some c)"
      and m2: "map_of (consumers w) c = Some name"
      by (auto simp: resolve_def split: option.splits)
    from first_match_Some[OF m1] obtain cids where
      s1: "select_consumer_id key w = Inr (Some c # cids)"
      by (auto simp: select_consumer_id_def k)
    from first_match_Some[OF m2] obtain names where
      s2: "select_username (Some c) w = Inr (name # names)"
      by (auto simp: select_username_def)
    let ?w1 = "print (Abuse ks c (str_opt name) v) w"
    have "\<forall>(key, v) \<in> set items. v \<ge> 100 \<longrightarrow>
            resolve (oauth2_credentials ?w1) (consumers ?w1) key \<noteq> None"
      using rest by simp
    from Cons.IH[OF this, of "tbl @ abuse_entry ks c (str_opt name) v"]
    show ?thesis using item True s1 s2 by (simp add: Let_def str_opt_def)
  qed
qed

lemma count_token_keyset: "set (map fst (count_token k ct)) = insert k (set (map fst ct))"
  unfolding count_token_keys by auto

lemma fold_count_token_keyset:
  "set (map fst (fold count_token ks ct)) = set ks \<union> set (map fst ct)"
  by (induction ks arbitrary: ct) (simp_all add: count_token_keyset del: set_map)

lemma deleteExpiredIDs_returns:
  assumes rd: "list_all readable (oauth2_tokens w)"
      and rs: "list_all (resolvable w) (oauth2_tokens w)"
  shows "\<exists>l w'. deleteExpiredIDs a so h host ks u p w = Inr (l, w')"
proof -
  let ?w2 = "session_start so host ks u p w"
  from scan_returns[OF rd current_aware, of w 0 "[]" ?w2] obtain n ct w3 where
    sc: "scan (current w) (oauth2_tokens w) 0 [] ?w2 = Inr ((n, ct), w3)" by blast
  from scan_complete[OF sc] have
    ct: "ct = fold count_token (map credential_id (filter (expired (current w)) (oauth2_tokens w))) []"
    by simp
  have "final_world (scan (current w) (oauth2_tokens w) 0 [] ?w2) = w3" using sc by simp
  note f3 = scan_world[OF this]
  let ?w4 = "print (CountAfter (int (length (oauth2_tokens w3)))) w3"
  have keys: "fst ` set ct \<subseteq> credential_id ` set (oauth2_tokens w)"
    using fold_count_token_keyset[of "map credential_id (filter (expired (current w)) (oauth2_tokens w))" "[]"]
    unfolding ct by auto
  have res: "resolve (oauth2_credentials ?w4) (consumers ?w4) key \<noteq> None"
    if kv: "(key, v) \<in> set ct" for key v
  proof -
    from kv keys obtain r where r: "r \<in> set (oauth2_tokens w)" "credential_id r = key" by force
    with rs have "resolvable w r" by (simp add: list_all_iff)
    with r(2) f3(2,3) show ?thesis by (simp add: resolvable_def split: option.splits)
  qed
  then have "\<forall>(key, v) \<in> set ct. v \<ge> 100 \<longrightarrow>
          resolve (oauth2_credentials ?w4) (consumers ?w4) key \<noteq> None"
    by blast
  from abuse_report_returns[OF this, of ks abuse_header] obtain tbl w5 where
    "abuse_report ks ct abuse_header ?w4 = Inr (tbl, w5)" by blast
  with sc show ?thesis by (simp add: deleteExpiredIDs_unfold)
qed

subsection \<open>The example run\<close>

lemmas demo_defs = cred_X_def cred_Y_def cred_Z_def cred_V_def consumer_1_def consumer_2_def
  tok_expired_def tok_tie_def tok_fresh_def tok_offset_def tok_old_def tok_null_def
  demo_args_def demo_world_def demo_connection_def demo_deleting_def demo_scanned_def
  demo_locals_def demo_mail_def demo_after_def demo_items_def broken_world_def broken_after_def

lemmas eval_defs = scanned_def readable_def expiration_time_def timedelta_def dt_add_def dt_gt_def
  MAXORDINAL_def US_PER_DAY_def utc_def Let_def utc_instant_def current_def

lemmas run_defs = deleteExpiredIDs_def select_count_def connect_def print_def delete_token_def
  shutdown_def sendEmailAlert_def truthy_def select_consumer_id_def select_username_def
  replace_char_def str_opt_def

lemma demo_distinct: "distinct (map id_tok (oauth2_tokens demo_world))"
  by (simp add: demo_defs)

lemma demo_all_scanned: "scanned (oauth2_tokens demo_world) = oauth2_tokens demo_world"
  by (simp add: demo_defs eval_defs)

lemma demo_scan:
  "scan (current demo_world) (oauth2_tokens demo_world) 0 [] demo_world
     = Inr ((3, [(Some cred_X, 2), (Some cred_Z, 1)]), demo_scanned)"
  by (simp add: demo_defs eval_defs run_defs)

lemma demo_run:
  "deleteExpiredIDs demo_args [] ''db1'' ''localhost'' ''kong_dev'' ''dba'' ''secret'' demo_world
     = Inr (demo_locals, demo_after)"
  by (simp add: demo_defs eval_defs run_defs)

section \<open>The claims\<close>

text \<open>
  Claim C1. Among the rows the scan reaches, a row is deleted if and only if the one instant
  read from the clock at the start of the run is strictly later than the row's creation instant
  (a naive \<open>created_at\<close> read as UTC, an aware one reduced by its offset) plus \<open>expires_in\<close>
  seconds. Equality keeps the row. \<open>scanned\<close> is the part of the table before the first row
  that raises; a run that returns has scanned the whole table. The \<open>id\<close> column is the
  primary key, hence the distinctness.
\<close>

theorem expired_iff_deleted:
  assumes "distinct (map id_tok (oauth2_tokens w))"
  shows "(\<forall>r \<in> set (scanned (oauth2_tokens w)).
            \<exists>c s. created_at r = Some c \<and> expires_in r = Some s \<and>
              (r \<notin> set (oauth2_tokens (final_world (deleteExpiredIDs a so h host ks u p w)))
                 \<longleftrightarrow> clock w > utc_instant c + s * 1000000)) \<and>
         (\<forall>l w'. deleteExpiredIDs a so h host ks u p w = Inr (l, w')
                  \<longrightarrow> scanned (oauth2_tokens w) = oauth2_tokens w)"
proof (intro conjI ballI allI impI)
  fix r assume r: "r \<in> set (scanned (oauth2_tokens w))"
  let ?rows = "oauth2_tokens w"
  let ?D = "filter (expired (current w)) (scanned ?rows)"
  from r have rr: "r \<in> set ?rows" using scanned_subset by blast
  from readable_expired[OF scanned_readable[OF r], of w] obtain c s where
    cs: "created_at r = Some c" "expires_in r = Some s"
        "expired (current w) r \<longleftrightarrow> clock w > utc_instant c + s * 1000000" by blast
  have sub: "set ?D \<subseteq> set ?rows" using scanned_subset by auto
  have "r \<notin> set (oauth2_tokens (final_world (deleteExpiredIDs a so h host ks u p w)))
          \<longleftrightarrow> id_tok r \<in> id_tok ` set ?D"
    using rr by (simp add: deleteExpiredIDs_tokens)
  also have "\<dots> \<longleftrightarrow> r \<in> set ?D" by (rule deleted_ids[OF assms sub rr])
  also have "\<dots> \<longleftrightarrow> clock w > utc_instant c + s * 1000000" using r cs(3) by simp
  finally show "\<exists>c s. created_at r = Some c \<and> expires_in r = Some s \<and>
              (r \<notin> set (oauth2_tokens (final_world (deleteExpiredIDs a so h host ks u p w)))
                 \<longleftrightarrow> clock w > utc_instant c + s * 1000000)"
    using cs(1,2) by blast
next
  fix l w' assume "deleteExpiredIDs a so h host ks u p w = Inr (l, w')"
  then show "scanned (oauth2_tokens w) = oauth2_tokens w" by (rule complete_scans_all)
qed

theorem expired_iff_deleted_witness:
  "distinct (map id_tok (oauth2_tokens demo_world)) \<and>
   tok_expired \<in> set (scanned (oauth2_tokens demo_world)) \<and>
   tok_tie \<in> set (scanned (oauth2_tokens demo_world)) \<and>
   tok_fresh \<in> set (scanned (oauth2_tokens demo_world)) \<and>
   tok_expired \<notin> set (oauth2_tokens (final_world
      (deleteExpiredIDs demo_args [] ''db1'' ''localhost'' ''kong_dev'' ''dba'' ''secret'' demo_world))) \<and>
   tok_tie \<in> set (oauth2_tokens (final_world
      (deleteExpiredIDs demo_args [] ''db1'' ''localhost'' ''kong_dev'' ''dba'' ''secret'' demo_world))) \<and>
   tok_fresh \<in> set (oauth2_tokens (final_world
      (deleteExpiredIDs demo_args [] ''db1'' ''localhost'' ''kong_dev'' ''dba'' ''secret'' demo_world))) \<and>
   clock demo_world = utc_instant \<lparr>wall = 63899996399000000, tzinfo = None\<rparr> + 3601 * 1000000 \<and>
   clock demo_world = utc_instant \<lparr>wall = 63899996400000000, tzinfo = None\<rparr> + 3600 * 1000000 \<and>
   clock demo_world = utc_instant \<lparr>wall = 63899996401000000, tzinfo = Some 0\<rparr> + 3599 * 1000000 \<and>
   scanned (oauth2_tokens demo_world) = oauth2_tokens demo_world"
proof -
  let ?run = "deleteExpiredIDs demo_args [] ''db1'' ''localhost'' ''kong_dev'' ''dba'' ''secret'' demo_world"
  have d: "distinct (map id_tok (oauth2_tokens demo_world))" by (rule demo_distinct)
  have s: "tok_expired \<in> set (scanned (oauth2_tokens demo_world))"
          "tok_tie \<in> set (scanned (oauth2_tokens demo_world))"
          "tok_fresh \<in> set (scanned (oauth2_tokens demo_world))"
    by (simp_all add: demo_all_scanned) (simp_all add: demo_world_def)
  note t = expired_iff_deleted[OF d, of demo_args "[]" "''db1''" "''localhost''" "''kong_dev''"
              "''dba''" "''secret''"]
  note row = t[THEN conjunct1, rule_format]
  have 1: "tok_expired \<notin> set (oauth2_tokens (final_world ?run))"
    using row[OF s(1)] by (simp add: tok_expired_def utc_instant_def demo_world_def)
  have 2: "tok_tie \<in> set (oauth2_tokens (final_world ?run))"
    using row[OF s(2)] by (simp add: tok_tie_def utc_instant_def demo_world_def)
  have 3: "tok_fresh \<in> set (oauth2_tokens (final_world ?run))"
    using row[OF s(3)] by (simp add: tok_fresh_def utc_instant_def demo_world_def)
  have c: "clock demo_world = utc_instant \<lparr>wall = 63899996399000000, tzinfo = None\<rparr> + 3601 * 1000000"
          "clock demo_world = utc_instant \<lparr>wall = 63899996400000000, tzinfo = None\<rparr> + 3600 * 1000000"
          "clock demo_world = utc_instant \<lparr>wall = 63899996401000000, tzinfo = Some 0\<rparr> + 3599 * 1000000"
    by (simp_all add: utc_instant_def demo_world_def)
  have a: "scanned (oauth2_tokens demo_world) = oauth2_tokens demo_world"
    using t[THEN conjunct2, rule_format, OF demo_run] .
  show ?thesis using d s 1 2 3 c a by blast
qed

text \<open>
  Claim C2. In a run that returns, with nobody else writing the table, the count read after
  the scan is the count read before it minus \<open>rowsdeleted\<close>; the two counts are the sizes of the
  table before and after the run.
\<close>

theorem count_after_eq:
  assumes "deleteExpiredIDs a so h host ks u p w = Inr (l, w')"
      and "distinct (map id_tok (oauth2_tokens w))"
  shows "count_after l = count_before l - rowsdeleted_final l \<and>
         count_before l = int (length (oauth2_tokens w)) \<and>
         count_after l = int (length (oauth2_tokens w'))"
proof -
  note f = complete_run_facts[OF assms(1)]
  have "oauth2_tokens w' = filter (\<lambda>r. \<not> expired (current w) r) (oauth2_tokens w)"
    using f(5) retained_rows[OF assms(2)] by simp
  then have "length (oauth2_tokens w') + length (filter (expired (current w)) (oauth2_tokens w))
               = length (oauth2_tokens w)"
    using sum_length_filter_compl[of "expired (current w)" "oauth2_tokens w"] by simp
  then show ?thesis using f(1,3,4) by simp
qed

theorem count_after_eq_witness:
  "deleteExpiredIDs demo_args [] ''db1'' ''localhost'' ''kong_dev'' ''dba'' ''secret'' demo_world
     = Inr (demo_locals, demo_after) \<and>
   distinct (map id_tok (oauth2_tokens demo_world)) \<and>
   count_after demo_locals = count_before demo_locals - rowsdeleted_final demo_locals \<and>
   count_before demo_locals = 5 \<and> rowsdeleted_final demo_locals = 3 \<and> count_after demo_locals = 2 \<and>
   length (oauth2_tokens demo_world) = 5 \<and> length (oauth2_tokens demo_after) = 2"
  using count_after_eq[OF demo_run demo_distinct] demo_run demo_distinct
  by (simp add: demo_locals_def)

text \<open>
  Claim C3. In a run that returns, \<open>consumer_tokens\<close> holds each key once, and for every
  credential key \<open>k\<close> it maps \<open>k\<close> to the number of rows of \<open>k\<close> that left the table when that
  number is at least one, and has no entry for \<open>k\<close> otherwise.
\<close>

theorem tally_counts_deleted:
  assumes "deleteExpiredIDs a so h host ks u p w = Inr (l, w')"
      and "distinct (map id_tok (oauth2_tokens w))"
  shows "distinct (map fst (consumer_tokens_final l)) \<and>
         tokens_of k w' \<le> tokens_of k w \<and>
         map_of (consumer_tokens_final l) k =
           (if tokens_of k w - tokens_of k w' \<ge> 1
            then Some (int (tokens_of k w - tokens_of k w')) else None)"
proof -
  note f = complete_run_facts[OF assms(1)]
  let ?E = "expired (current w)"
  let ?rows = "oauth2_tokens w"
  have kept: "oauth2_tokens w' = filter (\<lambda>r. \<not> ?E r) ?rows"
    using f(5) retained_rows[OF assms(2)] by simp
  have split: "length (filter (\<lambda>r. credential_id r = k) (filter ?E ?rows)) +
               tokens_of k w' = tokens_of k w"
    unfolding tokens_of_def kept
    using sum_length_filter_compl[of ?E "filter (\<lambda>r. credential_id r = k) ?rows"]
    by (simp add: conj_commute)
  have d: "distinct (map fst (consumer_tokens_final l))"
    unfolding f(2) by (rule fold_count_token_distinct) simp
  define m where "m = count_list (map credential_id (filter ?E ?rows)) k"
  have look: "map_of (consumer_tokens_final l) k = (if m = 0 then None else Some (int m))"
    unfolding f(2) m_def by (simp add: fold_count_token_lookup)
  have "m + tokens_of k w' = tokens_of k w"
    using split by (simp add: m_def count_list_credentials)
  then have diff: "tokens_of k w - tokens_of k w' = m" and le: "tokens_of k w' \<le> tokens_of k w"
    by simp_all
  show ?thesis using d le look unfolding diff by simp
qed

theorem tally_counts_deleted_witness:
  "deleteExpiredIDs demo_args [] ''db1'' ''localhost'' ''kong_dev'' ''dba'' ''secret'' demo_world
     = Inr (demo_locals, demo_after) \<and>
   distinct (map id_tok (oauth2_tokens demo_world)) \<and>
   tokens_of (Some cred_X) demo_world = 3 \<and> tokens_of (Some cred_X) demo_after = 1 \<and>
   map_of (consumer_tokens_final demo_locals) (Some cred_X) = Some 2 \<and>
   tokens_of (Some cred_Y) demo_world = 1 \<and> tokens_of (Some cred_Y) demo_after = 1 \<and>
   map_of (consumer_tokens_final demo_locals) (Some cred_Y) = None"
proof -
  have x: "tokens_of (Some cred_X) demo_world = 3" "tokens_of (Some cred_X) demo_after = 1"
    and y: "tokens_of (Some cred_Y) demo_world = 1" "tokens_of (Some cred_Y) demo_after = 1"
    by (simp_all add: tokens_of_def demo_defs)
  have "map_of (consumer_tokens_final demo_locals) (Some cred_X) = Some 2"
    using tally_counts_deleted[OF demo_run demo_distinct, of "Some cred_X"] x by simp
  moreover have "map_of (consumer_tokens_final demo_locals) (Some cred_Y) = None"
    using tally_counts_deleted[OF demo_run demo_distinct, of "Some cred_Y"] y by simp
  ultimately show ?thesis using demo_run demo_distinct x y by blast
qed



text \<open>
  Claim C5. For every wall-clock reading \<open>c\<close> and every row \<open>r\<close> (hence every lifetime), the
  row with \<open>c\<close> taken naive and the row with \<open>c\<close> tagged UTC get the same creation and
  expiration time, the same expiration decision, and the same loop step.
\<close>

theorem naive_as_utc:
  "expiration_time (r\<lparr>created_at := Some (c\<lparr>tzinfo := None\<rparr>)\<rparr>) =
     expiration_time (r\<lparr>created_at := Some (c\<lparr>tzinfo := utc\<rparr>)\<rparr>) \<and>
   expired now (r\<lparr>created_at := Some (c\<lparr>tzinfo := None\<rparr>)\<rparr>) =
     expired now (r\<lparr>created_at := Some (c\<lparr>tzinfo := utc\<rparr>)\<rparr>) \<and>
   scan now (r\<lparr>created_at := Some (c\<lparr>tzinfo := None\<rparr>)\<rparr> # rows) n ct w =
     scan now (r\<lparr>created_at := Some (c\<lparr>tzinfo := utc\<rparr>)\<rparr> # rows) n ct w"
proof -
  have e: "expiration_time (r\<lparr>created_at := Some (c\<lparr>tzinfo := None\<rparr>)\<rparr>) =
           expiration_time (r\<lparr>created_at := Some (c\<lparr>tzinfo := utc\<rparr>)\<rparr>)"
    by (simp add: expiration_time_def utc_def)
  then show ?thesis by (simp add: expired_def split: sum.splits prod.splits)
qed

theorem naive_as_utc_witness:
  "expiration_time tok_expired = expiration_time (tok_expired\<lparr>created_at :=
       Some \<lparr>wall = 63899996399000000, tzinfo = utc\<rparr>\<rparr>) \<and>
   expired (current demo_world) tok_expired \<and>
   expired (current demo_world) (tok_expired\<lparr>created_at :=
       Some \<lparr>wall = 63899996399000000, tzinfo = utc\<rparr>\<rparr>)"
proof -
  have e: "expired (current demo_world) tok_expired"
    by (simp add: expired_def demo_defs eval_defs)
  have n: "tok_expired\<lparr>created_at := Some (\<lparr>wall = 63899996399000000, tzinfo = Some 1\<rparr>\<lparr>tzinfo := None\<rparr>)\<rparr>
             = tok_expired"
    by (simp add: tok_expired_def)
  note t = naive_as_utc[where r = tok_expired
             and c = "\<lparr>wall = 63899996399000000, tzinfo = Some 1\<rparr>"
             and now = "current demo_world" and rows = "[]" and n = 0 and ct = "[]"
             and w = demo_world]
  show ?thesis using t e unfolding n by simp
qed



text \<open>
  Claim C7. With \<open>--ssl\<close>, a missing \<open>--ca\<close> or a path that is not on disk ends the script in
  a usage error with the world untouched: no connection has been opened, nothing deleted,
  nothing sent. Once the command line is parsed a usage error arises in no other way, and
  when the check passes a connection is opened.
\<close>

theorem ssl_requires_ca:
  "(ssl a \<and> (ca a = None \<or> (\<exists>p. ca a = Some p \<and> \<not> path_exists w p)) \<longrightarrow>
      (\<exists>m. main a w = Inl (UsageError m, w))) \<and>
   (\<forall>m w'. main a w = Inl (UsageError m, w') \<longrightarrow>
      ssl a \<and> (ca a = None \<or> (\<exists>p. ca a = Some p \<and> \<not> path_exists w p)) \<and> w' = w) \<and>
   (\<not> (ssl a \<and> (ca a = None \<or> (\<exists>p. ca a = Some p \<and> \<not> path_exists w p))) \<longrightarrow>
      length (connections (final_world (main a w))) = length (connections w) + 1)"
proof -
  let ?bad = "ssl a \<and> (ca a = None \<or> (\<exists>p. ca a = Some p \<and> \<not> path_exists w p))"
  have 1: "\<exists>m. main a w = Inl (UsageError m, w)" if ?bad
    using that by (simp add: main_unfold)
  have 2: "?bad \<and> w' = w" if u: "main a w = Inl (UsageError m, w')" for m w'
  proof (cases ?bad)
    case True
    then show ?thesis using u by (simp add: main_unfold)
  next
    case False
    with u obtain so where
      "deleteExpiredIDs a so (hostname w) (cassandrahost a) (keyspace a) (username a) (password a) w
         = Inl (UsageError m, w')"
      unfolding main_unfold by (simp only: if_False)
    from deleteExpiredIDs_errors[OF this] show ?thesis by simp
  qed
  have 3: "length (connections (final_world (main a w))) = length (connections w) + 1" if "\<not> ?bad"
    using that
    by (simp only: main_unfold if_False deleteExpiredIDs_connections length_append list.size)
  show ?thesis using 1 2 3 by blast
qed

theorem ssl_requires_ca_witness:
  "ssl (demo_args\<lparr>ssl := True\<rparr>) \<and> ca (demo_args\<lparr>ssl := True\<rparr>) = None \<and>
   main (demo_args\<lparr>ssl := True\<rparr>) demo_world
     = Inl (UsageError ''--ssl requires --ca to set a truststore'', demo_world) \<and>
   \<not> path_exists demo_world ''/tmp/missing.pem'' \<and>
   main (demo_args\<lparr>ssl := True, ca := Some ''/tmp/missing.pem''\<rparr>) demo_world
     = Inl (UsageError ''--ca file not found or reachable'', demo_world) \<and>
   path_exists demo_world ''/etc/ssl/truststore.pem'' \<and>
   length (connections (final_world
     (main (demo_args\<lparr>ssl := True, ca := Some ''/etc/ssl/truststore.pem''\<rparr>) demo_world))) = 1"
proof -
  let ?a1 = "demo_args\<lparr>ssl := True\<rparr>"
  let ?a2 = "demo_args\<lparr>ssl := True, ca := Some ''/tmp/missing.pem''\<rparr>"
  let ?a3 = "demo_args\<lparr>ssl := True, ca := Some ''/etc/ssl/truststore.pem''\<rparr>"
  have h1: "ssl ?a1 \<and> (ca ?a1 = None \<or> (\<exists>p. ca ?a1 = Some p \<and> \<not> path_exists demo_world p))"
    by (simp add: demo_args_def)
  have h2: "ssl ?a2 \<and> (ca ?a2 = None \<or> (\<exists>p. ca ?a2 = Some p \<and> \<not> path_exists demo_world p))"
    by (simp add: demo_args_def demo_world_def)
  have h3: "\<not> (ssl ?a3 \<and> (ca ?a3 = None \<or> (\<exists>p. ca ?a3 = Some p \<and> \<not> path_exists demo_world p)))"
    by (simp add: demo_args_def demo_world_def)
  from ssl_requires_ca[of ?a1 demo_world, THEN conjunct1, rule_format, OF h1]
  have 1: "main ?a1 demo_world = Inl (UsageError ''--ssl requires --ca to set a truststore'', demo_world)"
    by (auto simp: main_def demo_args_def)
  from ssl_requires_ca[of ?a2 demo_world, THEN conjunct1, rule_format, OF h2]
  have 2: "main ?a2 demo_world = Inl (UsageError ''--ca file not found or reachable'', demo_world)"
    by (auto simp: main_def demo_args_def demo_world_def)
  from ssl_requires_ca[of ?a3 demo_world, THEN conjunct2, THEN conjunct2, rule_format, OF h3]
  have 3: "length (connections (final_world (main ?a3 demo_world))) = 1"
    by (simp add: demo_world_def)
  have p: "\<not> path_exists demo_world ''/tmp/missing.pem''"
          "path_exists demo_world ''/etc/ssl/truststore.pem''"
    by (simp_all add: demo_world_def)
  show ?thesis using 1 2 3 p by (simp add: demo_args_def)
qed




text \<open>
  Claim C9. When the scan returns, the values of \<open>consumer_tokens\<close> add up to \<open>rowsdeleted\<close>,
  provided they did when it started (both start empty, at 0).
\<close>

theorem tally_sum_rowsdeleted:
  assumes "scan now rows n0 ct0 w = Inr ((n, ct), w')"
      and "sum_list (map snd ct0) = n0"
  shows "sum_list (map snd ct) = n"
  using scan_complete[OF assms(1)] assms(2) by (simp add: fold_count_token_sum)

theorem tally_sum_rowsdeleted_witness:
  "scan (current demo_world) (oauth2_tokens demo_world) 0 [] demo_world
     = Inr ((3, [(Some cred_X, 2), (Some cred_Z, 1)]), demo_scanned) \<and>
   sum_list (map snd ([] :: (uuid option \<times> int) list)) = 0 \<and>
   sum_list (map snd [(Some cred_X, 2 :: int), (Some cred_Z, 1)]) = 3"
proof -
  have z: "sum_list (map snd ([] :: (uuid option \<times> int) list)) = 0" by simp
  from tally_sum_rowsdeleted[OF demo_scan z] show ?thesis using demo_scan z by blast
qed

text \<open>
  Claim C10. An empty string for \<open>--email\<close> or \<open>--smtpserver\<close> sends nothing, exactly as the
  omitted flag does; an empty string for \<open>--sender\<close> behaves as the omitted flag, and the
  message then carries the generated From label.
\<close>

theorem guard_tests_truthiness:
  "sendEmailAlert (a\<lparr>email := Some ''''\<rparr>) B h s t w = sendEmailAlert (a\<lparr>email := None\<rparr>) B h s t w \<and>
   sendEmailAlert (a\<lparr>email := None\<rparr>) B h s t w = w \<and>
   sendEmailAlert (a\<lparr>smtpserver := Some ''''\<rparr>) B h s t w
     = sendEmailAlert (a\<lparr>smtpserver := None\<rparr>) B h s t w \<and>
   sendEmailAlert (a\<lparr>smtpserver := None\<rparr>) B h s t w = w \<and>
   sendEmailAlert (a\<lparr>sender := Some ''''\<rparr>) B h s t w = sendEmailAlert (a\<lparr>sender := None\<rparr>) B h s t w \<and>
   (truthy (email a) \<and> truthy (smtpserver a) \<longrightarrow>
      (\<exists>m. outbox (sendEmailAlert (a\<lparr>sender := Some ''''\<rparr>) B h s t w) = outbox w @ [m] \<and>
           header_from m = h @ '' OAuth Token Cleanup Script'' \<and>
           envelope_from m = h @ '' OAuth Token Cleanup Script''))"
  by (simp add: sendEmailAlert_def truthy_def Let_def)

theorem guard_tests_truthiness_witness:
  "truthy (email demo_args) \<and> truthy (smtpserver demo_args) \<and>
   sendEmailAlert (demo_args\<lparr>email := Some ''''\<rparr>) ''body'' ''db1'' ''OAuth Token Cleanup''
       (current demo_world) demo_world = demo_world \<and>
   sendEmailAlert (demo_args\<lparr>smtpserver := Some ''''\<rparr>) ''body'' ''db1'' ''OAuth Token Cleanup''
       (current demo_world) demo_world = demo_world \<and>
   map header_from (outbox (sendEmailAlert (demo_args\<lparr>sender := Some ''''\<rparr>) ''body'' ''db1''
       ''OAuth Token Cleanup'' (current demo_world) demo_world))
     = [''db1 OAuth Token Cleanup Script'']"
proof -
  have c: "truthy (email demo_args) \<and> truthy (smtpserver demo_args)"
    by (simp add: truthy_def demo_args_def)
  note t = guard_tests_truthiness[of demo_args "''body''" "''db1''" "''OAuth Token Cleanup''"
             "current demo_world" demo_world]
  have 1: "sendEmailAlert (demo_args\<lparr>email := Some ''''\<rparr>) ''body'' ''db1'' ''OAuth Token Cleanup''
       (current demo_world) demo_world = demo_world"
    using t by simp
  have 2: "sendEmailAlert (demo_args\<lparr>smtpserver := Some ''''\<rparr>) ''body'' ''db1'' ''OAuth Token Cleanup''
       (current demo_world) demo_world = demo_world"
    using t by simp
  from t[THEN conjunct2, THEN conjunct2, THEN conjunct2, THEN conjunct2, THEN conjunct2,
         rule_format, OF c]
  have 3: "map header_from (outbox (sendEmailAlert (demo_args\<lparr>sender := Some ''''\<rparr>) ''body'' ''db1''
       ''OAuth Token Cleanup'' (current demo_world) demo_world))
     = [''db1 OAuth Token Cleanup Script'']"
    by (auto simp: demo_world_def)
  show ?thesis using c 1 2 3 by blast
qed

end
